theory Spec2Isabelle
  imports Main "HOL-Library.Sublist"
begin

section \<open>The \<open>out\<close> operation of the ChartMuseum resource (src/out.ts)\<close>

text \<open>
  The script is one asynchronous function that talks to the file system, to three
  command-line tools (helm, gpg) and to the repository server. The embedding makes every
  answer of the outside a field of a record \<open>world\<close>, every effect an \<open>event\<close> of a
  trace, and every way of leaving the function (\<open>process.exit\<close>, a thrown error, the
  returned value) a value of a sum type. JavaScript strings are \<open>string\<close>s.
\<close>

subsection \<open>String operations of the JavaScript runtime used by the script\<close>

abbreviation LF :: char where "LF \<equiv> CHR 0x0A"
abbreviation CR :: char where "CR \<equiv> CHR 0x0D"

text \<open>\<open>s.split(/\r?\n/)\<close>: a line ends at LF, and a CR right before that LF belongs to
  the separator. The empty string splits into one empty line.\<close>

fun splitLines :: "string \<Rightarrow> string list" where
  "splitLines [] = [[]]"
| "splitLines (c # cs) =
     (if c = LF then [] # splitLines cs
      else if c = CR \<and> cs \<noteq> [] \<and> hd cs = LF then splitLines cs
      else (case splitLines cs of
              [] \<Rightarrow> [[c]]
            | l # ls \<Rightarrow> (c # l) # ls))"

text \<open>\<open>s.includes(sub)\<close> and \<open>s.startsWith(sub)\<close> (the latter is \<^const>\<open>prefix\<close>).\<close>

fun includesStr :: "string \<Rightarrow> string \<Rightarrow> bool" where
  "includesStr [] sub = (sub = [])"
| "includesStr (c # cs) sub = (prefix sub (c # cs) \<or> includesStr cs sub)"

text \<open>\<open>xs.join(sep)\<close>.\<close>

fun joinWith :: "string \<Rightarrow> string list \<Rightarrow> string" where
  "joinWith sep [] = []"
| "joinWith sep [x] = x"
| "joinWith sep (x # y # ys) = x @ sep @ joinWith sep (y # ys)"

text \<open>The part of \<open>s\<close> before the first occurrence of \<open>sub\<close> (all of \<open>s\<close> when there is
  none): what \<open>split\<close> puts between two matches of its separator.\<close>

fun beforeSub :: "string \<Rightarrow> string \<Rightarrow> string" where
  "beforeSub sub [] = []"
| "beforeSub sub (c # cs) = (if prefix sub (c # cs) then [] else c # beforeSub sub cs)"

text \<open>The characters matched by \<open>\s\<close> among the 8-bit characters.\<close>

definition isSpace :: "char \<Rightarrow> bool" where
  "isSpace c \<longleftrightarrow> c \<in> {CHR '' '', CHR 0x09, LF, CHR 0x0B, CHR 0x0C, CR, CHR 0xA0}"

text \<open>\<open>s.replace(/\r?\n/, "")\<close>: the expression has no \<open>g\<close> flag, so only the first
  line break goes.\<close>

fun replaceFirstLineBreak :: "string \<Rightarrow> string" where
  "replaceFirstLineBreak [] = []"
| "replaceFirstLineBreak (c # cs) =
     (if c = LF then cs
      else if c = CR \<and> cs \<noteq> [] \<and> hd cs = LF then tl cs
      else c # replaceFirstLineBreak cs)"

text \<open>\<open>path.basename(p)\<close> (POSIX): trailing slashes are ignored, the result is what
  follows the last remaining slash.\<close>

definition basename :: "string \<Rightarrow> string" where
  "basename p = rev (takeWhile (\<lambda>c. c \<noteq> CHR ''/'') (dropWhile (\<lambda>c. c = CHR ''/'') (rev p)))"

text \<open>\<open>path.resolve(dir, name)\<close> for an absolute \<open>dir\<close> and a plain file name.\<close>

definition joinPath :: "string \<Rightarrow> string \<Rightarrow> string" where
  "joinPath dir name = dir @ ''/'' @ name"

abbreviation DQ :: char where "DQ \<equiv> CHR 0x22"

definition quoted :: "string \<Rightarrow> string" where
  "quoted s = [DQ] @ s @ [DQ]"

text \<open>\<open>String(n)\<close> for a file size.\<close>

fun decimal :: "nat \<Rightarrow> string" where
  "decimal n =
     (if n < 10 then [char_of (48 + n)]
      else decimal (n div 10) @ [char_of (48 + n mod 10)])"

declare decimal.simps [simp del]

text \<open>The number a string of decimal digits denotes.\<close>

definition digitsValue :: "string \<Rightarrow> nat" where
  "digitsValue s = foldl (\<lambda>a c. 10 * a + (of_char c - 48)) 0 s"

subsection \<open>Key import (\<open>importGpgKey\<close>, lines 42 to 80)\<close>

text \<open>
  The promise is rejected in three ways: with an \<open>Error\<close> naming the exit code, and with
  two different strings when the exit code is zero. The exit code is \<open>None\<close> when the
  process was ended by a signal (\<open>null != 0\<close> holds in JavaScript).
\<close>

datatype import_error =
    GpgExitCode "int option"
  | KeyLineNotFound
  | KeyRegexFailure

text \<open>\<open>/^gpg\:\ key\ (.*?)\: secret\ key\ imported$/.exec(line)\<close>: the expression is
  anchored at both ends, so the group is what lies between the two literals; \<open>.\<close> matches
  no line terminator.\<close>

definition keyIdRegex :: "string \<Rightarrow> string option" where
  "keyIdRegex line =
     (let pre = ''gpg: key ''; post = '': secret key imported'';
          rest = drop (length pre) line;
          mid = take (length rest - length post) rest
      in if prefix pre line \<and> length post \<le> length rest
            \<and> drop (length rest - length post) rest = post
            \<and> LF \<notin> set mid \<and> CR \<notin> set mid
         then Some mid else None)"

definition importOnClose :: "int option \<Rightarrow> string \<Rightarrow> import_error + string" where
  "importOnClose code importResult =
     (if code \<noteq> Some 0 then Inl (GpgExitCode code)
      else (case find (\<lambda>line. includesStr line ''secret key imported'') (splitLines importResult) of
              None \<Rightarrow> Inl KeyLineNotFound
            | Some keyIdLine \<Rightarrow>
                (case keyIdRegex keyIdLine of
                   None \<Rightarrow> Inl KeyRegexFailure
                 | Some keyId \<Rightarrow> Inr keyId)))"

subsection \<open>JSON values and the two comparisons of the script\<close>

text \<open>
  A decoded response body is any JSON value. Numbers are kept as integers (the script
  never computes with them). A property read gives \<open>None\<close> for \<open>undefined\<close>; reading a
  property of \<open>null\<close> or \<open>undefined\<close> throws a \<open>TypeError\<close>.
\<close>

datatype json =
    JNull
  | JBool bool
  | JNum int
  | JStr string
  | JArr "json list"
  | JObj "(string \<times> json) list"

datatype js_error =
    FsError string
  | YamlError
  | TypeError
  | FetchError
  | JsonError
  | ImportError import_error

fun propOf :: "json option \<Rightarrow> string \<Rightarrow> json option" where
  "propOf (Some (JObj kvs)) k = map_of kvs k"
| "propOf _ k = None"

definition getProp :: "json option \<Rightarrow> string \<Rightarrow> js_error + json option" where
  "getProp j k = (if j = None \<or> j = Some JNull then Inl TypeError else Inr (propOf j k))"

text \<open>\<open>x != null\<close>.\<close>

definition notNullish :: "json option \<Rightarrow> bool" where
  "notNullish j \<longleftrightarrow> j \<noteq> None \<and> j \<noteq> Some JNull"

text \<open>The string an array or object turns into when it is compared with a string
  (\<open>Array.prototype.join\<close> writes \<open>null\<close> as the empty string). How a number is
  printed is left to the runtime: \<open>nts\<close> is its \<open>String(n)\<close>.\<close>

fun jsToString :: "(int \<Rightarrow> string) \<Rightarrow> json \<Rightarrow> string"
  and joinElems :: "(int \<Rightarrow> string) \<Rightarrow> json list \<Rightarrow> string" where
  "jsToString nts JNull = ''null''"
| "jsToString nts (JBool b) = (if b then ''true'' else ''false'')"
| "jsToString nts (JNum i) = nts i"
| "jsToString nts (JStr s) = s"
| "jsToString nts (JArr xs) = joinElems nts xs"
| "jsToString nts (JObj kvs) = ''[object Object]''"
| "joinElems nts [] = []"
| "joinElems nts [x] = (if x = JNull then [] else jsToString nts x)"
| "joinElems nts (x # y # ys) =
     (if x = JNull then [] else jsToString nts x) @ '','' @ joinElems nts (y # ys)"

subsection \<open>The request (\<open>OutRequest\<close> of src/index.ts, with the fields out.ts reads)\<close>

text \<open>An optional field is an \<open>option\<close>: \<open>None\<close> stands for an absent field and for
  \<open>null\<close>, which the script does not tell apart (\<open>!= null\<close>).\<close>

record source_cfg =
  server_url :: string
  chart_name :: string
  version_range :: "string option"
  basic_auth_username :: "string option"
  basic_auth_password :: "string option"
  harbor_api :: "bool option"

record dep_repo =
  repo_server_url :: string
  repo_basic_auth_username :: "string option"
  repo_basic_auth_password :: "string option"
  repo_tls_ca_cert :: "string option"
  repo_tls_client_cert :: "string option"
  repo_tls_client_key :: "string option"

record out_params =
  chart :: string
  sign :: "bool option"
  key_data :: "string option"
  key_file :: "string option"
  key_passphrase :: "string option"
  version :: "string option"
  version_file :: "string option"
  force :: "bool option"
  dependency_update :: "bool option"
  dependency_repos :: "(string \<times> dep_repo) list option"

record out_request =
  source :: source_cfg
  params :: out_params

text \<open>The value \<open>out\<close> returns (\<open>OutResponse\<close>); the values come from the decoded body and
  may be \<open>undefined\<close>.\<close>

record out_response =
  resp_version :: "json option"
  resp_digest :: "json option"
  resp_metadata :: "(string \<times> json option) list"

subsection \<open>The outside world\<close>

datatype file_kind = RegularFile | Directory | OtherKind

record stat =
  st_kind :: file_kind
  st_size :: nat

text \<open>\<open>Chart.yaml\<close> as the template literal of line 252 prints its two fields.
  \<open>yaml.load\<close> throws, or gives a value: \<open>None\<close> is \<open>null\<close>, whose fields cannot be
  read.\<close>

record chart_info =
  ci_name :: string
  ci_version :: string

datatype yaml_result =
    YamlThrows
  | YamlLoaded "chart_info option"

text \<open>The gpg child either fails to start, so that it emits \<open>error\<close>, or closes with an
  exit code (\<open>None\<close> when a signal ended it) after writing its standard error text.\<close>

datatype spawn_result =
    SpawnError
  | Closed "int option" string

text \<open>The promisified \<open>child_process.exec\<close> resolves with the two outputs when the
  command exits with zero and rejects otherwise, the error carrying \<open>stderr\<close>.\<close>

datatype exec_result =
    ExecOk string string
  | ExecFailed "string option"

datatype upload_body =
    Multipart string
  | RawStream string

type_synonym headers = "(string \<times> string) list"

text \<open>\<open>fetch\<close> rejects, or resolves with a status and a body; the body is \<open>None\<close> when it
  is not JSON, so that \<open>.json()\<close> rejects.\<close>

datatype fetch_result =
    FetchRejected
  | Response nat "json option"

text \<open>
  One field for each question the script asks. \<open>lstat\<close> and \<open>readFile\<close> answer \<open>None\<close>
  when the call rejects. \<open>tmpDirs n\<close> is the directory the \<open>n\<close>-th call of \<open>tmp.dir\<close>
  creates and \<open>mkdtemp\<close> the keyring directory; creating them, writing files into them
  and \<open>rimraf\<close> on the keyring are taken to succeed. \<open>lstatArchive\<close> is \<open>lstat\<close> asked
  after \<open>helm package\<close> has run. \<open>semverSatisfies\<close> is \<open>semver.satisfies\<close>,
  \<open>base64\<close> the encoding of a \<open>Buffer\<close>, \<open>numberToString\<close> is \<open>String(n)\<close> and
  \<open>stringEqualsNumber s n\<close> says whether the string \<open>s\<close> converts to the number \<open>n\<close>;
  the four are library code, kept as parameters. \<open>createFetchAgent\<close> is left out, as are
  \<open>process.chdir\<close> and the clean-up callback of the output directory, which the caller
  never invokes.
\<close>

record world =
  argv :: "string list"
  stdin :: "out_request option"
  pathResolve :: "string \<Rightarrow> string"
  lstat :: "string \<Rightarrow> stat option"
  readFile :: "string \<Rightarrow> string option"
  semverSatisfies :: "string \<Rightarrow> string \<Rightarrow> bool"
  tmpDirs :: "nat \<Rightarrow> string"
  yamlLoad :: "string \<Rightarrow> yaml_result"
  mkdtemp :: string
  gpgSpawn :: "string list \<Rightarrow> string option \<Rightarrow> spawn_result"
  exec :: "string \<Rightarrow> exec_result"
  lstatArchive :: "string \<Rightarrow> stat option"
  fetchPost :: "string \<Rightarrow> headers \<Rightarrow> upload_body \<Rightarrow> fetch_result"
  fetchGet :: "string \<Rightarrow> headers \<Rightarrow> fetch_result"
  base64 :: "string \<Rightarrow> string"
  numberToString :: "int \<Rightarrow> string"
  stringEqualsNumber :: "string \<Rightarrow> int \<Rightarrow> bool"

subsection \<open>Effects and ways of leaving\<close>

datatype event =
    EvLstat string
  | EvReadFile string
  | EvWriteFile string string
  | EvYamlLoad string
  | EvTmpDir string
  | EvMkdtemp string
  | EvDeltree string
  | EvExec string
  | EvSpawnGpg "string list" "string option"
  | EvPost string headers upload_body
  | EvGet string headers

text \<open>\<open>Exit n\<close> is \<open>process.exit(n)\<close>; \<open>Throw e\<close> is an exception or rejection that
  travels up through \<open>catch\<close> and \<open>finally\<close>; \<open>Uncaught\<close> is an error outside every
  handler, which ends the process where it stands.\<close>

datatype halt =
    Exit int
  | Throw js_error
  | Uncaught

text \<open>A run is the trace of its effects with either the way it stopped or its value.
  Writes to the standard error stream are not part of the trace.\<close>

type_synonym 'a run = "event list \<times> (halt + 'a)"

definition andThen :: "'a run \<Rightarrow> ('a \<Rightarrow> 'b run) \<Rightarrow> 'b run" where
  "andThen m f =
     (case m of
        (t, Inl h) \<Rightarrow> (t, Inl h)
      | (t, Inr a) \<Rightarrow> (case f a of (t', r) \<Rightarrow> (t @ t', r)))"

definition ret :: "'a \<Rightarrow> 'a run" where
  "ret a = ([], Inr a)"

definition exitWith :: "int \<Rightarrow> 'a run" where
  "exitWith n = ([], Inl (Exit n))"

definition throwErr :: "js_error \<Rightarrow> 'a run" where
  "throwErr e = ([], Inl (Throw e))"

definition emit :: "event list \<Rightarrow> unit run" where
  "emit evs = (evs, Inr ())"

text \<open>\<open>try { m } finally { evs }\<close>: the block runs after a value and after a thrown
  error, not after \<open>process.exit\<close> and not after the process has died.\<close>

definition finallyDo :: "'a run \<Rightarrow> event list \<Rightarrow> 'a run" where
  "finallyDo m evs =
     (case m of
        (t, Inl (Exit n)) \<Rightarrow> (t, Inl (Exit n))
      | (t, Inl Uncaught) \<Rightarrow> (t, Inl Uncaught)
      | (t, r) \<Rightarrow> (t @ evs, r))"

subsection \<open>Version Resolver (lines 111 to 125)\<close>

definition resolveVersion :: "world \<Rightarrow> out_request \<Rightarrow> string option run" where
  "resolveVersion w request =
     (case version_file (params request) of
        None \<Rightarrow> ret (version (params request))
      | Some vf \<Rightarrow>
          (let versionFile = pathResolve w vf in
           case lstat w versionFile of
             None \<Rightarrow> ([EvLstat versionFile], Inl (Throw (FsError versionFile)))
           | Some st \<Rightarrow>
               if st_kind st = RegularFile then
                 (case readFile w versionFile of
                    None \<Rightarrow>
                      ([EvLstat versionFile, EvReadFile versionFile],
                       Inl (Throw (FsError versionFile)))
                  | Some content \<Rightarrow>
                      ([EvLstat versionFile, EvReadFile versionFile],
                       Inr (Some (replaceFirstLineBreak content))))
               else ([EvLstat versionFile], Inr (version (params request)))))"

definition checkVersionRange :: "world \<Rightarrow> out_request \<Rightarrow> string option \<Rightarrow> unit run" where
  "checkVersionRange w request ver =
     (case ver of
        None \<Rightarrow> ret ()
      | Some v \<Rightarrow>
          (case version_range (source request) of
             None \<Rightarrow> ret ()
           | Some versionRange \<Rightarrow>
               if \<not> semverSatisfies w v versionRange then exitWith 104 else ret ()))"

subsection \<open>Dependency Repository Registrar (lines 128 to 182)\<close>

text \<open>One turn of the loop up to the \<open>exec\<close>: the number of temporary directories
  created so far (before and after), the files staged, the command line.\<close>

definition repoAddStep ::
  "world \<Rightarrow> nat \<Rightarrow> string \<Rightarrow> dep_repo \<Rightarrow> nat \<times> event list \<times> string" where
  "repoAddStep w n name repo =
     (let auth =
            (case (repo_basic_auth_username repo, repo_basic_auth_password repo) of
               (Some u, Some p) \<Rightarrow> [''--username'', u, ''--password'', p]
             | _ \<Rightarrow> []);
          caFile = joinPath (tmpDirs w n) ''ca.pem'';
          ca = (case repo_tls_ca_cert repo of
                  None \<Rightarrow> (n, [], [])
                | Some cert \<Rightarrow>
                    (Suc n, [''--ca-file'', caFile],
                     [EvTmpDir (tmpDirs w n), EvWriteFile caFile cert]));
          n1 = fst ca;
          certFile = joinPath (tmpDirs w n1) ''cert.pem'';
          keyFile = joinPath (tmpDirs w n1) ''key.pem'';
          tls = (case (repo_tls_client_cert repo, repo_tls_client_key repo) of
                   (Some cert, Some key) \<Rightarrow>
                     (Suc n1, [''--cert-file'', certFile, ''--key-file'', keyFile],
                      [EvTmpDir (tmpDirs w n1), EvWriteFile certFile cert,
                       EvWriteFile keyFile key])
                 | _ \<Rightarrow> (n1, [], []));
          addCmd = [''helm'', ''repo'', ''add''] @ auth @ fst (snd ca) @ fst (snd tls)
                     @ [name, repo_server_url repo]
      in (fst tls, snd (snd ca) @ snd (snd tls), joinWith '' '' addCmd))"

text \<open>The loop over \<open>Object.entries\<close>: the first command that fails ends the process.\<close>

fun addDependencyRepos :: "world \<Rightarrow> nat \<Rightarrow> (string \<times> dep_repo) list \<Rightarrow> nat run" where
  "addDependencyRepos w n [] = ret n"
| "addDependencyRepos w n ((name, repo) # rest) =
     (case repoAddStep w n name repo of
        (n', staged, cmdline) \<Rightarrow>
          (case exec w cmdline of
             ExecFailed err \<Rightarrow> (staged @ [EvExec cmdline], Inl (Exit 193))
           | ExecOk so se \<Rightarrow>
               andThen (emit (staged @ [EvExec cmdline]))
                 (\<lambda>_. addDependencyRepos w n' rest)))"

subsection \<open>Signer (lines 201 to 237) and Packager (lines 184 to 260)\<close>

definition gpgImportArgs :: "world \<Rightarrow> string \<Rightarrow> string \<Rightarrow> string list" where
  "gpgImportArgs w gpgHome keyFile =
     [''--batch'', ''--homedir'', quoted (pathResolve w gpgHome),
      ''--import'', quoted (pathResolve w keyFile)]"

text \<open>The child has listeners for its output and for \<open>close\<close>, none for \<open>error\<close>: when
  it cannot be started, the \<open>error\<close> event is thrown outside the promise and the
  process dies.\<close>

definition importGpgKey ::
  "world \<Rightarrow> string \<Rightarrow> string \<Rightarrow> string option \<Rightarrow> string run" where
  "importGpgKey w gpgHome keyFile passphrase =
     (let args = gpgImportArgs w gpgHome keyFile
      in case gpgSpawn w args passphrase of
           SpawnError \<Rightarrow> ([EvSpawnGpg args passphrase], Inl Uncaught)
         | Closed code importResult \<Rightarrow>
             (case importOnClose code importResult of
                Inl e \<Rightarrow> ([EvSpawnGpg args passphrase], Inl (Throw (ImportError e)))
              | Inr keyId \<Rightarrow> ([EvSpawnGpg args passphrase], Inr keyId)))"

text \<open>The key file the import reads and the file written before it: inline data is
  written to \<open>gpg-key.asc\<close> in the output directory, and that file replaces
  \<open>key_file\<close>.\<close>

definition signKeyFile :: "out_params \<Rightarrow> string \<Rightarrow> string" where
  "signKeyFile p tmpDir =
     (case key_data p of
        Some keyData \<Rightarrow> joinPath tmpDir ''gpg-key.asc''
      | None \<Rightarrow> (case key_file p of Some kf \<Rightarrow> kf | None \<Rightarrow> []))"

definition signStaged :: "out_params \<Rightarrow> string \<Rightarrow> event list" where
  "signStaged p tmpDir =
     (case key_data p of
        Some keyData \<Rightarrow> [EvWriteFile (joinPath tmpDir ''gpg-key.asc'') keyData]
      | None \<Rightarrow> [])"

text \<open>The body of \<open>if (request.params.sign === true)\<close>; its value is what it pushes onto
  the packaging command.\<close>

definition signChart :: "world \<Rightarrow> out_params \<Rightarrow> string \<Rightarrow> string list run" where
  "signChart w p tmpDir =
     (if key_data p = None \<and> key_file p = None then exitWith 332
      else
        (let keyFile = signKeyFile p tmpDir;
             gpgHome = mkdtemp w
         in andThen (emit (signStaged p tmpDir @ [EvMkdtemp gpgHome])) (\<lambda>_.
              finallyDo
                (andThen (importGpgKey w gpgHome keyFile (key_passphrase p)) (\<lambda>keyId.
                   ret [''--sign'', ''--key'', keyId, ''--keyring'',
                        quoted (joinPath gpgHome ''secring.gpg'')]))
                [EvDeltree gpgHome])))"

text \<open>The name and version of \<open>Chart.yaml\<close> are read at line 252 only, after the
  packaging command: a \<open>Chart.yaml\<close> that loads as \<open>null\<close> fails there.\<close>

definition packageDirectory ::
  "world \<Rightarrow> out_request \<Rightarrow> nat \<Rightarrow> string option \<Rightarrow> string \<Rightarrow> (string \<times> stat) run" where
  "packageDirectory w request n ver chartLocation =
     (let yamlFile = joinPath chartLocation ''Chart.yaml'' in
      case yamlLoad w yamlFile of
        YamlThrows \<Rightarrow> ([EvYamlLoad yamlFile], Inl (Throw YamlError))
      | YamlLoaded chartInfo \<Rightarrow>
          (let tmpDir = tmpDirs w n;
               cmd0 = [''helm'', ''package'', ''--destination'', tmpDir]
                        @ (if dependency_update (params request) = Some True
                           then [''--dependency-update''] else [])
           in andThen (emit [EvYamlLoad yamlFile, EvTmpDir tmpDir]) (\<lambda>_.
              andThen (if sign (params request) = Some True
                       then signChart w (params request) tmpDir else ret []) (\<lambda>signArgs.
                (let cmd = cmd0 @ signArgs
                             @ (case ver of Some v \<Rightarrow> [''--version'', v] | None \<Rightarrow> [])
                             @ [chartLocation];
                     cmdline = joinWith '' '' cmd
                 in case exec w cmdline of
                      ExecFailed err \<Rightarrow> ([EvExec cmdline], Inl (Exit 121))
                    | ExecOk so se \<Rightarrow>
                        (case chartInfo of
                           None \<Rightarrow> ([EvExec cmdline], Inl (Throw TypeError))
                         | Some info \<Rightarrow>
                             (let chartFile = joinPath tmpDir
                                    (ci_name info @ ''-''
                                       @ (case ver of Some v \<Rightarrow> v
                                          | None \<Rightarrow> ci_version info)
                                       @ ''.tgz'')
                              in case lstatArchive w chartFile of
                                   None \<Rightarrow>
                                     ([EvExec cmdline, EvLstat chartFile],
                                      Inl (Throw (FsError chartFile)))
                                 | Some st \<Rightarrow>
                                     ([EvExec cmdline, EvLstat chartFile],
                                      Inr (chartFile, st)))))))))"

definition packageChart ::
  "world \<Rightarrow> out_request \<Rightarrow> nat \<Rightarrow> string option \<Rightarrow> (string \<times> stat) run" where
  "packageChart w request n ver =
     (let chartLocation = pathResolve w (chart (params request)) in
      case lstat w chartLocation of
        None \<Rightarrow> ([EvLstat chartLocation], Inl (Throw (FsError chartLocation)))
      | Some chartFileStat \<Rightarrow>
          if st_kind chartFileStat = Directory then
            andThen (emit [EvLstat chartLocation])
              (\<lambda>_. packageDirectory w request n ver chartLocation)
          else if st_kind chartFileStat = RegularFile then
            ([EvLstat chartLocation], Inr (chartLocation, chartFileStat))
          else ([EvLstat chartLocation], Inl (Exit 110)))"

subsection \<open>Inspection of the archive (lines 262 to 280)\<close>

text \<open>\<open>versionLine.split(/version:\s*/)[1]\<close> for a line that starts with
  \<open>version:\<close>: what follows the label and the white space after it, up to the next
  occurrence of the label.\<close>

definition parseVersionLine :: "string \<Rightarrow> string" where
  "parseVersionLine versionLine =
     beforeSub ''version:'' (dropWhile isSpace (drop (length ''version:'') versionLine))"

definition inspectCommand :: "string \<Rightarrow> string" where
  "inspectCommand chartFile = ''helm inspect chart '' @ chartFile"

definition inspectChart :: "world \<Rightarrow> string \<Rightarrow> string run" where
  "inspectChart w chartFile =
     (case exec w (inspectCommand chartFile) of
        ExecFailed err \<Rightarrow> ([EvExec (inspectCommand chartFile)], Inl (Exit 120))
      | ExecOk so se \<Rightarrow>
          (case find (prefix ''version:'') (splitLines so) of
             None \<Rightarrow> ([EvExec (inspectCommand chartFile)], Inl (Exit 121))
           | Some versionLine \<Rightarrow>
               ([EvExec (inspectCommand chartFile)], Inr (parseVersionLine versionLine))))"

subsection \<open>Uploader (lines 282 to 325)\<close>

text \<open>\<open>createFetchHeaders\<close> of src/index.ts: the two credentials must be truthy, that
  is present and not empty.\<close>

definition createFetchHeaders :: "world \<Rightarrow> out_request \<Rightarrow> headers" where
  "createFetchHeaders w request =
     (case (basic_auth_username (source request), basic_auth_password (source request)) of
        (Some u, Some p) \<Rightarrow>
          if u \<noteq> [] \<and> p \<noteq> []
          then [(''Authorization'', ''Basic '' @ base64 w (u @ '':'' @ p))]
          else []
      | _ \<Rightarrow> [])"

definition uploadHeaders :: "world \<Rightarrow> out_request \<Rightarrow> string \<Rightarrow> stat \<Rightarrow> headers" where
  "uploadHeaders w request chartFile chartFileStat =
     (if harbor_api (source request) = Some True then createFetchHeaders w request
      else createFetchHeaders w request
             @ [(''Content-length'', decimal (st_size chartFileStat)),
                (''Content-Disposition'',
                 ''attachment; filename='' @ quoted (basename chartFile))])"

definition uploadBody :: "out_request \<Rightarrow> string \<Rightarrow> upload_body" where
  "uploadBody request chartFile =
     (if harbor_api (source request) = Some True then Multipart chartFile
      else RawStream chartFile)"

definition postUrl :: "out_request \<Rightarrow> string" where
  "postUrl request =
     server_url (source request)
       @ (if force (params request) = Some True then ''?force=true'' else [])"

text \<open>What lines 313 to 325 do with the answer to the POST.\<close>

definition checkPostResult :: "fetch_result \<Rightarrow> halt + unit" where
  "checkPostResult r =
     (case r of
        FetchRejected \<Rightarrow> Inl (Exit 124)
      | Response status body \<Rightarrow>
          if status \<noteq> 201 then Inl (Exit (int status))
          else
            (case body of
               None \<Rightarrow> Inl (Throw JsonError)
             | Some postResultJson \<Rightarrow>
                 (case getProp (Some postResultJson) ''error'' of
                    Inl e \<Rightarrow> Inl (Throw e)
                  | Inr err \<Rightarrow>
                      if notNullish err then Inl (Exit 602)
                      else if propOf (Some postResultJson) ''saved'' \<noteq> Some (JBool True)
                      then Inl (Exit 603)
                      else Inr ())))"

definition uploadChart :: "world \<Rightarrow> out_request \<Rightarrow> string \<Rightarrow> stat \<Rightarrow> unit run" where
  "uploadChart w request chartFile chartFileStat =
     (let hs = uploadHeaders w request chartFile chartFileStat;
          body = uploadBody request chartFile
      in ([EvPost (postUrl request) hs body],
          checkPostResult (fetchPost w (postUrl request) hs body)))"

subsection \<open>Publish Verifier (lines 332 to 393)\<close>

text \<open>\<open>version != x\<close> for the string \<open>version\<close> is the negation of this loose equality:
  \<open>null\<close> and \<open>undefined\<close> equal no string, a string equals itself only, a number or a
  boolean is compared as a number, an array or an object through its string.\<close>

definition looseEq :: "world \<Rightarrow> string \<Rightarrow> json option \<Rightarrow> bool" where
  "looseEq w s x =
     (case x of
        None \<Rightarrow> False
      | Some JNull \<Rightarrow> False
      | Some (JStr t) \<Rightarrow> s = t
      | Some (JNum i) \<Rightarrow> stringEqualsNumber w s i
      | Some (JBool b) \<Rightarrow> stringEqualsNumber w s (if b then 1 else 0)
      | Some (JArr xs) \<Rightarrow> s = jsToString (numberToString w) (JArr xs)
      | Some (JObj kvs) \<Rightarrow> s = jsToString (numberToString w) (JObj kvs))"

definition chartInfoUrl :: "out_request \<Rightarrow> string \<Rightarrow> string" where
  "chartInfoUrl request ver =
     server_url (source request) @ ''/'' @ chart_name (source request) @ ''/'' @ ver"

definition harborResponse :: "json option \<Rightarrow> json option \<Rightarrow> out_response" where
  "harborResponse chartJson metadata =
     \<lparr> resp_version = propOf metadata ''version'',
       resp_digest = propOf metadata ''digest'',
       resp_metadata =
         [(''created'', propOf metadata ''created''),
          (''description'', propOf metadata ''description''),
          (''appVersion'', propOf chartJson ''appVersion'')] \<rparr>"

definition plainResponse :: "json option \<Rightarrow> out_response" where
  "plainResponse chartJson =
     \<lparr> resp_version = propOf chartJson ''version'',
       resp_digest = propOf chartJson ''digest'',
       resp_metadata =
         [(''created'', propOf chartJson ''created''),
          (''description'', propOf chartJson ''description''),
          (''appVersion'', propOf chartJson ''appVersion''),
          (''home'', propOf chartJson ''home''),
          (''tillerVersion'', propOf chartJson ''tillerVersion'')] \<rparr>"

text \<open>What lines 340 to 393 do with the answer to the GET.\<close>

definition checkChartResp ::
  "world \<Rightarrow> out_request \<Rightarrow> string \<Rightarrow> fetch_result \<Rightarrow> halt + out_response" where
  "checkChartResp w request ver r =
     (case r of
        FetchRejected \<Rightarrow> Inl (Throw FetchError)
      | Response status body \<Rightarrow>
          if \<not> (200 \<le> status \<and> status < 300) then Inl (Exit 710)
          else
            (case body of
               None \<Rightarrow> Inl (Throw JsonError)
             | Some j \<Rightarrow>
                 (let chartJson = Some j in
                  if harbor_api (source request) = Some True then
                    (case getProp chartJson ''metadata'' of
                       Inl e \<Rightarrow> Inl (Throw e)
                     | Inr metadata \<Rightarrow>
                         (case getProp metadata ''version'' of
                            Inl e \<Rightarrow> Inl (Throw e)
                          | Inr v \<Rightarrow>
                              if \<not> looseEq w ver v then Inl (Exit 203)
                              else Inr (harborResponse chartJson metadata)))
                  else
                    (case getProp chartJson ''version'' of
                       Inl e \<Rightarrow> Inl (Throw e)
                     | Inr v \<Rightarrow>
                         if \<not> looseEq w ver v then Inl (Exit 203)
                         else Inr (plainResponse chartJson)))))"

definition verifyUpload :: "world \<Rightarrow> out_request \<Rightarrow> string \<Rightarrow> out_response run" where
  "verifyUpload w request ver =
     (let hs = createFetchHeaders w request;
          url = chartInfoUrl request ver
      in ([EvGet url hs], checkChartResp w request ver (fetchGet w url hs)))"

subsection \<open>The pipeline (\<open>out\<close>, lines 82 to 395) and the caller (lines 397 to 415)\<close>

definition afterPackaging ::
  "world \<Rightarrow> out_request \<Rightarrow> string \<Rightarrow> stat \<Rightarrow> out_response run" where
  "afterPackaging w request chartFile chartFileStat =
     andThen (inspectChart w chartFile) (\<lambda>ver.
     andThen (uploadChart w request chartFile chartFileStat) (\<lambda>_.
       verifyUpload w request ver))"

text \<open>\<open>if (request.params.dependency_repos != null)\<close> around the loop.\<close>

definition registerRepos :: "world \<Rightarrow> out_request \<Rightarrow> nat run" where
  "registerRepos w request =
     (case dependency_repos (params request) of
        None \<Rightarrow> ret 0
      | Some repos \<Rightarrow> addDependencyRepos w 0 repos)"

definition afterRangeCheck ::
  "world \<Rightarrow> out_request \<Rightarrow> string option \<Rightarrow> out_response run" where
  "afterRangeCheck w request ver =
     andThen (registerRepos w request) (\<lambda>n.
     andThen (packageChart w request n ver) (\<lambda>(chartFile, chartFileStat).
       afterPackaging w request chartFile chartFileStat))"

definition outRequest :: "world \<Rightarrow> out_request \<Rightarrow> out_response run" where
  "outRequest w request =
     andThen (resolveVersion w request) (\<lambda>ver.
     andThen (checkVersionRange w request ver) (\<lambda>_.
       afterRangeCheck w request ver))"

definition out :: "world \<Rightarrow> out_response run" where
  "out w =
     (if length (argv w) \<noteq> 3 then exitWith 102
      else (case stdin w of
              None \<Rightarrow> exitWith 502
            | Some request \<Rightarrow> outRequest w request))"

text \<open>The exit status the operating system reports for \<open>process.exit(n)\<close>: the low
  eight bits of \<open>n\<close>.\<close>

definition exitStatus :: "int \<Rightarrow> int" where
  "exitStatus n = n mod 256"

text \<open>The caller prints the value and exits with 0; a rejection of \<open>out\<close> ends in
  \<open>process.exit(1)\<close>, and an uncaught error ends the process with status 1. The result
  is the exit status of the process and what it printed on standard output.\<close>

definition mainExit :: "world \<Rightarrow> int \<times> out_response option" where
  "mainExit w =
     (case snd (out w) of
        Inr data \<Rightarrow> (exitStatus 0, Some data)
      | Inl (Exit n) \<Rightarrow> (exitStatus n, None)
      | Inl (Throw e) \<Rightarrow> (exitStatus 1, None)
      | Inl Uncaught \<Rightarrow> (1, None))"

subsection \<open>Notions used to state the properties\<close>

text \<open>The stages up to the archive, as one run (the first half of \<open>outRequest\<close>).\<close>

definition prePackaging :: "world \<Rightarrow> out_request \<Rightarrow> (string \<times> stat) run" where
  "prePackaging w request =
     andThen (resolveVersion w request) (\<lambda>ver.
     andThen (checkVersionRange w request ver) (\<lambda>_.
     andThen (registerRepos w request) (\<lambda>n.
       packageChart w request n ver)))"

fun isSubprocess :: "event \<Rightarrow> bool" where
  "isSubprocess (EvExec c) = True"
| "isSubprocess (EvSpawnGpg a p) = True"
| "isSubprocess _ = False"

fun isNetwork :: "event \<Rightarrow> bool" where
  "isNetwork (EvPost u h b) = True"
| "isNetwork (EvGet u h) = True"
| "isNetwork _ = False"

fun isKeyringEvent :: "event \<Rightarrow> bool" where
  "isKeyringEvent (EvMkdtemp d) = True"
| "isKeyringEvent (EvDeltree d) = True"
| "isKeyringEvent _ = False"

fun isGpgSpawn :: "event \<Rightarrow> bool" where
  "isGpgSpawn (EvSpawnGpg a p) = True"
| "isGpgSpawn _ = False"

text \<open>An event that neither goes to the server nor concerns the keyring.\<close>

definition quietEvent :: "event \<Rightarrow> bool" where
  "quietEvent e \<longleftrightarrow> \<not> isNetwork e \<and> \<not> isKeyringEvent e \<and> \<not> isGpgSpawn e"

text \<open>Whether the keyring directory \<open>g\<close> is on disk after a trace, given whether it was
  before; and whether some command or request of the trace was issued while it was.\<close>

fun keyringStep :: "string \<Rightarrow> event \<Rightarrow> bool \<Rightarrow> bool" where
  "keyringStep g (EvMkdtemp d) live = (if d = g then True else live)"
| "keyringStep g (EvDeltree d) live = (if d = g then False else live)"
| "keyringStep g _ live = live"

fun keyringOnDisk :: "string \<Rightarrow> event list \<Rightarrow> bool \<Rightarrow> bool" where
  "keyringOnDisk g [] live = live"
| "keyringOnDisk g (e # es) live = keyringOnDisk g es (keyringStep g e live)"

fun usedWhileOnDisk :: "string \<Rightarrow> event list \<Rightarrow> bool \<Rightarrow> bool" where
  "usedWhileOnDisk g [] live = False"
| "usedWhileOnDisk g (e # es) live =
     ((live \<and> (case e of EvExec c \<Rightarrow> True | EvPost u h b \<Rightarrow> True | EvGet u h \<Rightarrow> True
                          | _ \<Rightarrow> False))
      \<or> usedWhileOnDisk g es (keyringStep g e live))"

definition keyringSafe :: "string \<Rightarrow> event list \<Rightarrow> bool" where
  "keyringSafe g t \<longleftrightarrow> \<not> keyringOnDisk g t False \<and> \<not> usedWhileOnDisk g t False"

text \<open>The version field of a decoded chart body in the dialect of the request.\<close>

definition versionField :: "out_request \<Rightarrow> json \<Rightarrow> json option" where
  "versionField request j =
     (if harbor_api (source request) = Some True
      then propOf (propOf (Some j) ''metadata'') ''version''
      else propOf (Some j) ''version'')"

text \<open>The words of the specification, for comparison with the code: the contents of the
  version file \<^emph>\<open>trimmed\<close>, and the identifier of the \<^emph>\<open>first line matching the
  pattern\<close> of the key import.\<close>

definition trimmedContents :: "string \<Rightarrow> string" where
  "trimmedContents s = rev (dropWhile isSpace (rev (dropWhile isSpace s)))"

definition firstMatchingKeyId :: "string \<Rightarrow> string option" where
  "firstMatchingKeyId importResult =
     (case find (\<lambda>line. keyIdRegex line \<noteq> None) (splitLines importResult) of
        None \<Rightarrow> None
      | Some line \<Rightarrow> keyIdRegex line)"

subsection \<open>Example runs\<close>

text \<open>A chart directory \<open>chart\<close> under the build root, a packaged archive \<open>app.tgz\<close>, a
  version file \<open>ver\<close> and a directory \<open>dir\<close>; a server that stores what it is sent.\<close>

definition exampleRequest :: out_request where
  "exampleRequest =
     \<lparr> source = \<lparr> server_url = ''http://cm/api/charts'', chart_name = ''app'',
                  version_range = None, basic_auth_username = None,
                  basic_auth_password = None, harbor_api = None \<rparr>,
       params = \<lparr> chart = ''chart'', sign = None, key_data = None, key_file = None,
                  key_passphrase = None, version = None, version_file = None,
                  force = None, dependency_update = None, dependency_repos = None \<rparr> \<rparr>"

definition exampleChartJson :: json where
  "exampleChartJson =
     JObj [(''name'', JStr ''app''), (''version'', JStr ''1.0.0''), (''digest'', JStr ''abc''),
           (''created'', JStr ''today''), (''description'', JStr ''An app''),
           (''appVersion'', JStr ''7''), (''home'', JStr ''http://app''),
           (''tillerVersion'', JStr ''2'')]"

definition exampleWorld :: world where
  "exampleWorld =
     \<lparr> argv = [''node'', ''out'', ''/build''],
       stdin = Some exampleRequest,
       pathResolve = (\<lambda>p. if prefix ''/'' p then p else ''/build/'' @ p),
       lstat = (\<lambda>p. if p = ''/build/chart'' \<or> p = ''/build/dir''
                      then Some \<lparr> st_kind = Directory, st_size = 0 \<rparr>
                      else if p = ''/build/app.tgz''
                      then Some \<lparr> st_kind = RegularFile, st_size = 1234 \<rparr>
                      else if p = ''/build/ver''
                      then Some \<lparr> st_kind = RegularFile, st_size = 7 \<rparr>
                      else None),
       readFile = (\<lambda>p. if p = ''/build/ver'' then Some (''1.0.0 '' @ [LF]) else None),
       semverSatisfies = (\<lambda>v r. r = ''*'' \<or> (r = ''^1.0.0'' \<and> v = ''1.0.0'')),
       tmpDirs = (\<lambda>n. ''/tmp/t''),
       yamlLoad = (\<lambda>p. if p = ''/build/chart/Chart.yaml''
                         then YamlLoaded (Some \<lparr> ci_name = ''app'', ci_version = ''1.0.0'' \<rparr>)
                         else YamlThrows),
       mkdtemp = ''/tmp/kr'',
       gpgSpawn = (\<lambda>args pass.
         Closed (Some 0) (''gpg: key AB12: secret key imported'' @ [LF])),
       exec = (\<lambda>c. if prefix ''helm inspect'' c
                     then ExecOk (''name: app'' @ [LF] @ ''version: 1.0.0'' @ [LF]) []
                     else ExecOk [] []),
       lstatArchive = (\<lambda>p. Some \<lparr> st_kind = RegularFile, st_size = 1234 \<rparr>),
       fetchPost = (\<lambda>u h b. Response 201 (Some (JObj [(''saved'', JBool True)]))),
       fetchGet = (\<lambda>u h. Response 200 (Some exampleChartJson)),
       base64 = (\<lambda>s. s),
       numberToString = (\<lambda>i. if i < 0 then ''-'' @ decimal (nat (- i)) else decimal (nat i)),
       stringEqualsNumber = (\<lambda>s n. False) \<rparr>"

text \<open>The version file \<open>ver\<close> together with a version parameter.\<close>

definition versionFileRequest :: out_request where
  "versionFileRequest =
     exampleRequest\<lparr> params := (params exampleRequest)
       \<lparr> version_file := Some ''ver'', version := Some ''9.9.9'' \<rparr> \<rparr>"

definition versionFileWorld :: world where
  "versionFileWorld = exampleWorld\<lparr> stdin := Some versionFileRequest \<rparr>"

text \<open>A directory given as the version file.\<close>

definition versionDirRequest :: out_request where
  "versionDirRequest =
     exampleRequest\<lparr> params := (params exampleRequest)
       \<lparr> version_file := Some ''dir'', version := Some ''1.0.0'' \<rparr> \<rparr>"

definition versionDirWorld :: world where
  "versionDirWorld = exampleWorld\<lparr> stdin := Some versionDirRequest \<rparr>"

text \<open>Scenario 3 of the specification: version 2.0.0 against the range \<open>^1.0.0\<close>.\<close>

definition rangeRequest :: out_request where
  "rangeRequest =
     \<lparr> source = (source exampleRequest)\<lparr> version_range := Some ''^1.0.0'' \<rparr>,
       params = (params exampleRequest)\<lparr> version := Some ''2.0.0'' \<rparr> \<rparr>"

definition rangeWorld :: world where
  "rangeWorld = exampleWorld\<lparr> stdin := Some rangeRequest \<rparr>"

text \<open>Signing with both keys given, an import that prints no key line (scenario 4),
  and signing without any key.\<close>

definition signRequest :: out_request where
  "signRequest =
     exampleRequest\<lparr> params := (params exampleRequest)
       \<lparr> sign := Some True, key_data := Some ''KEY'', key_file := Some ''k.asc'' \<rparr> \<rparr>"

definition signWorld :: world where
  "signWorld = exampleWorld\<lparr> stdin := Some signRequest \<rparr>"

definition signFailWorld :: world where
  "signFailWorld =
     signWorld\<lparr> gpgSpawn := (\<lambda>args pass.
       Closed (Some 0) (''gpg: no valid OpenPGP data found.'' @ [LF])) \<rparr>"

text \<open>The same request on a machine where gpg cannot be started, and a request that
  gives the key as a file only.\<close>

definition spawnErrorWorld :: world where
  "spawnErrorWorld = signWorld\<lparr> gpgSpawn := (\<lambda>args pass. SpawnError) \<rparr>"

definition keyFileRequest :: out_request where
  "keyFileRequest =
     exampleRequest\<lparr> params := (params exampleRequest)
       \<lparr> sign := Some True, key_file := Some ''k.asc'' \<rparr> \<rparr>"

definition keyFileWorld :: world where
  "keyFileWorld = exampleWorld\<lparr> stdin := Some keyFileRequest \<rparr>"

definition noKeyRequest :: out_request where
  "noKeyRequest = exampleRequest\<lparr> params := (params exampleRequest)\<lparr> sign := Some True \<rparr> \<rparr>"

definition noKeyWorld :: world where
  "noKeyWorld = exampleWorld\<lparr> stdin := Some noKeyRequest \<rparr>"

text \<open>Signing without any key asked for an archive, and for a chart directory whose
  \<open>Chart.yaml\<close> cannot be loaded.\<close>

definition signArchiveRequest :: out_request where
  "signArchiveRequest =
     exampleRequest\<lparr> params := (params exampleRequest)
       \<lparr> chart := ''app.tgz'', sign := Some True \<rparr> \<rparr>"

definition signArchiveWorld :: world where
  "signArchiveWorld = exampleWorld\<lparr> stdin := Some signArchiveRequest \<rparr>"

definition noChartYamlWorld :: world where
  "noChartYamlWorld = noKeyWorld\<lparr> yamlLoad := (\<lambda>p. YamlThrows) \<rparr>"

text \<open>Signing without any key, with version 2.0.0 against the range \<open>^1.0.0\<close>.\<close>

definition noKeyRangeRequest :: out_request where
  "noKeyRangeRequest =
     \<lparr> source = (source exampleRequest)\<lparr> version_range := Some ''^1.0.0'' \<rparr>,
       params = (params exampleRequest)\<lparr> sign := Some True, version := Some ''2.0.0'' \<rparr> \<rparr>"

definition noKeyRangeWorld :: world where
  "noKeyRangeWorld = exampleWorld\<lparr> stdin := Some noKeyRangeRequest \<rparr>"

text \<open>An archive of version 1.0.0 given as the chart, with the version parameter 2.0.0.\<close>

definition mismatchRequest :: out_request where
  "mismatchRequest =
     exampleRequest\<lparr> params := (params exampleRequest)
       \<lparr> chart := ''app.tgz'', version := Some ''2.0.0'' \<rparr> \<rparr>"

definition mismatchWorld :: world where
  "mismatchWorld = exampleWorld\<lparr> stdin := Some mismatchRequest \<rparr>"

text \<open>The Harbor dialect (scenario 2), whose body nests the chart under \<open>metadata\<close>.\<close>

definition harborRequest :: out_request where
  "harborRequest =
     exampleRequest\<lparr> source := (source exampleRequest)\<lparr> harbor_api := Some True \<rparr> \<rparr>"

definition harborChartJson :: json where
  "harborChartJson =
     JObj [(''metadata'',
            JObj [(''name'', JStr ''app''), (''version'', JStr ''1.0.0''),
                  (''digest'', JStr ''abc''), (''created'', JStr ''today''),
                  (''description'', JStr ''An app''), (''appVersion'', JStr ''7'')]),
           (''labels'', JArr [])]"

definition harborWorld :: world where
  "harborWorld =
     exampleWorld\<lparr> stdin := Some harborRequest,
                    fetchGet := (\<lambda>u h. Response 200 (Some harborChartJson)) \<rparr>"

text \<open>A server that reports the version as a one-element array, one that answers 201
  without having saved (scenario 5), and one that refuses an existing version.\<close>

definition arrayVersionWorld :: world where
  "arrayVersionWorld =
     exampleWorld\<lparr> fetchGet := (\<lambda>u h. Response 200
       (Some (JObj [(''version'', JArr [JStr ''1.0.0'']), (''digest'', JStr ''abc'')]))) \<rparr>"





section \<open>Properties\<close>

subsection \<open>Sequencing of runs\<close>

lemma andThen_Inl [simp]: "andThen (t, Inl h) f = (t, Inl h)"
  by (simp add: andThen_def)

lemma andThen_Inr [simp]: "andThen (t, Inr a) f = (t @ fst (f a), snd (f a))"
  by (simp add: andThen_def split: prod.splits)

lemma andThen_ret [simp]: "andThen (ret a) f = f a"
  by (simp add: ret_def)

lemma andThen_emit [simp]: "andThen (emit evs) f = (evs @ fst (f ()), snd (f ()))"
  by (simp add: emit_def)

lemma andThen_exitWith [simp]: "andThen (exitWith n) f = exitWith n"
  by (simp add: exitWith_def)

lemma fst_andThen:
  "fst (andThen m f) = fst m @ (case snd m of Inl h \<Rightarrow> [] | Inr a \<Rightarrow> fst (f a))"
  by (cases m) (auto split: sum.splits)

lemma snd_andThen:
  "snd (andThen m f) = (case snd m of Inl h \<Rightarrow> Inl h | Inr a \<Rightarrow> snd (f a))"
  by (cases m) (auto split: sum.splits)

lemma andThen_assoc:
  "andThen (andThen m f) g = andThen m (\<lambda>a. andThen (f a) g)"
proof (cases m)
  case (Pair t r)
  then show ?thesis
    by (cases r) (simp_all add: fst_andThen snd_andThen split: sum.splits)
qed

subsection \<open>Key import\<close>

lemma keyIdRegex_Some:
  "keyIdRegex l = Some k \<longleftrightarrow>
     l = ''gpg: key '' @ k @ '': secret key imported'' \<and> LF \<notin> set k \<and> CR \<notin> set k"
  unfolding keyIdRegex_def Let_def
  by (auto simp: prefix_def) (metis append_take_drop_id)

lemma includesStr_prefix: "prefix sub s \<Longrightarrow> includesStr s sub"
  by (cases s) auto

lemma includesStr_append: "includesStr (a @ sub @ b) sub"
  by (induction a) (auto simp: includesStr_prefix)

lemma includesStr_append': "includesStr (a @ sub) sub"
  using includesStr_append [of a sub "[]"] by simp

lemma keyIdRegex_includes:
  "keyIdRegex l = Some k \<Longrightarrow> includesStr l ''secret key imported''"
proof -
  assume "keyIdRegex l = Some k"
  then have "l = (''gpg: key '' @ k @ '': '') @ ''secret key imported''"
    by (simp add: keyIdRegex_Some)
  then show ?thesis
    using includesStr_append' by metis
qed

lemma find_regex_of_find_includes:
  "find (\<lambda>line. includesStr line ''secret key imported'') ls = Some l \<Longrightarrow>
   keyIdRegex l = Some k \<Longrightarrow>
   find (\<lambda>line. keyIdRegex line \<noteq> None) ls = Some l"
proof (induction ls)
  case Nil
  then show ?case by simp
next
  case (Cons a ls)
  show ?case
  proof (cases "includesStr a ''secret key imported''")
    case True
    with Cons.prems show ?thesis by auto
  next
    case False
    then have "keyIdRegex a = None"
      using keyIdRegex_includes by (cases "keyIdRegex a") auto
    with False Cons show ?thesis by auto
  qed
qed

text \<open>
  Claim C6 (as amended). The key import fails with the exit code when that is not zero.
  With exit code zero it takes the \<^emph>\<open>first line that contains\<close> the text
  \<open>secret key imported\<close>: when there is none it fails with \<open>KeyLineNotFound\<close>; when that
  line is not exactly \<open>gpg: key <id>: secret key imported\<close> it fails with
  \<open>KeyRegexFailure\<close>, whatever the later lines are; otherwise the identifier is the
  part between the two literals. Whenever it yields an identifier, that is the one of the
  first line matching the whole pattern. It never ends without an identifier or an error.
\<close>

theorem import_key_id:
  "(code \<noteq> Some 0 \<longrightarrow> importOnClose code r = Inl (GpgExitCode code))
   \<and> (importOnClose (Some 0) r = Inr k \<longleftrightarrow>
        (\<exists>l. find (\<lambda>line. includesStr line ''secret key imported'') (splitLines r) = Some l
             \<and> l = ''gpg: key '' @ k @ '': secret key imported''
             \<and> LF \<notin> set k \<and> CR \<notin> set k))
   \<and> (importOnClose (Some 0) r = Inl KeyLineNotFound \<longleftrightarrow>
        (\<forall>l \<in> set (splitLines r). \<not> includesStr l ''secret key imported''))
   \<and> (importOnClose (Some 0) r = Inl KeyRegexFailure \<longleftrightarrow>
        (\<exists>l. find (\<lambda>line. includesStr line ''secret key imported'') (splitLines r) = Some l
             \<and> keyIdRegex l = None))
   \<and> (importOnClose (Some 0) r = Inr k \<longrightarrow> firstMatchingKeyId r = Some k)
   \<and> importOnClose (Some 0) r \<noteq> Inl (GpgExitCode c)"
proof (intro conjI)
  show "code \<noteq> Some 0 \<longrightarrow> importOnClose code r = Inl (GpgExitCode code)"
    by (simp add: importOnClose_def)
  show "importOnClose (Some 0) r = Inr k \<longleftrightarrow>
        (\<exists>l. find (\<lambda>line. includesStr line ''secret key imported'') (splitLines r) = Some l
             \<and> l = ''gpg: key '' @ k @ '': secret key imported''
             \<and> LF \<notin> set k \<and> CR \<notin> set k)"
  proof -
    have "importOnClose (Some 0) r = Inr k \<longleftrightarrow>
          (\<exists>l. find (\<lambda>line. includesStr line ''secret key imported'') (splitLines r) = Some l
               \<and> keyIdRegex l = Some k)"
      by (auto simp: importOnClose_def split: option.splits)
    then show ?thesis
      by (simp only: keyIdRegex_Some)
  qed
  show "importOnClose (Some 0) r = Inl KeyLineNotFound \<longleftrightarrow>
        (\<forall>l \<in> set (splitLines r). \<not> includesStr l ''secret key imported'')"
  proof -
    have "importOnClose (Some 0) r = Inl KeyLineNotFound \<longleftrightarrow>
          find (\<lambda>line. includesStr line ''secret key imported'') (splitLines r) = None"
      by (auto simp: importOnClose_def split: option.splits)
    then show ?thesis
      by (simp only: find_None_iff) blast
  qed
  show "importOnClose (Some 0) r = Inl KeyRegexFailure \<longleftrightarrow>
        (\<exists>l. find (\<lambda>line. includesStr line ''secret key imported'') (splitLines r) = Some l
             \<and> keyIdRegex l = None)"
    by (auto simp: importOnClose_def split: option.splits)
  show "importOnClose (Some 0) r = Inr k \<longrightarrow> firstMatchingKeyId r = Some k"
  proof
    assume "importOnClose (Some 0) r = Inr k"
    then obtain l where l:
      "find (\<lambda>line. includesStr line ''secret key imported'') (splitLines r) = Some l"
      "keyIdRegex l = Some k"
      by (auto simp: importOnClose_def split: option.splits)
    have "find (\<lambda>line. keyIdRegex line \<noteq> None) (splitLines r) = Some l"
      by (rule find_regex_of_find_includes [OF l])
    then show "firstMatchingKeyId r = Some k"
      unfolding firstMatchingKeyId_def by (simp only: option.case l(2))
  qed
  show "importOnClose (Some 0) r \<noteq> Inl (GpgExitCode c)"
    by (auto simp: importOnClose_def split: option.splits)
qed

theorem import_key_id_counterexample:
  "importOnClose (Some 0) (''gpg: secret key imported'' @ [LF] @ ''gpg: key AB12: secret key imported'') = Inl KeyRegexFailure
   \<and> firstMatchingKeyId (''gpg: secret key imported'' @ [LF] @ ''gpg: key AB12: secret key imported'') = Some ''AB12''"
  by code_simp

theorem import_key_id_witness:
  "importOnClose (Some 0) (''gpg: key AB12: secret key imported'' @ [LF]) = Inr ''AB12''
   \<and> firstMatchingKeyId (''gpg: key AB12: secret key imported'' @ [LF]) = Some ''AB12''
   \<and> importOnClose (Some 2) [] = Inl (GpgExitCode (Some 2))"
  using import_key_id [of "Some 2" "[]" "''AB12''" None]
        import_key_id [of "Some 2" "''gpg: key AB12: secret key imported'' @ [LF]" "''AB12''" None]
  by (simp add: importOnClose_def keyIdRegex_def)

subsection \<open>Version Resolver\<close>

lemma hd_not_in_set: "c \<notin> set l \<Longrightarrow> l \<noteq> [] \<Longrightarrow> hd l \<noteq> c"
  by (cases l) auto

lemma replaceFirstLineBreak_none: "LF \<notin> set l \<Longrightarrow> replaceFirstLineBreak l = l"
  by (induction l) (auto simp: hd_not_in_set)

lemma replaceFirstLineBreak_crlf:
  "LF \<notin> set l \<Longrightarrow> replaceFirstLineBreak (l @ [CR, LF]) = l"
  by (induction l) (auto simp: hd_append hd_not_in_set split: if_splits)

lemma replaceFirstLineBreak_lf:
  "LF \<notin> set l \<Longrightarrow> l = [] \<or> last l \<noteq> CR \<Longrightarrow> replaceFirstLineBreak (l @ [LF]) = l"
  by (induction l) (auto simp: hd_append hd_not_in_set split: if_splits)

lemma resolveVersion_quiet:
  "e \<in> set (fst (resolveVersion w request)) \<Longrightarrow> \<not> isSubprocess e \<and> \<not> isNetwork e"
  by (auto simp: resolveVersion_def ret_def Let_def split: option.splits if_splits)

text \<open>
  Claim C2 (as amended). Without \<open>version_file\<close> the version is the \<open>version\<close>
  parameter, which may be absent. With a \<open>version_file\<close> that names a regular file that
  can be read, the version is the line the file holds, without its line terminator (LF or
  CR LF) and otherwise as it stands: no white space is trimmed. It overrides the
  \<open>version\<close> parameter.
\<close>

theorem version_priority:
  "(version_file (params request) = None \<longrightarrow>
      resolveVersion w request = ([], Inr (version (params request))))
   \<and> (version_file (params request) = Some vf
        \<and> lstat w (pathResolve w vf) = Some st \<and> st_kind st = RegularFile
        \<and> readFile w (pathResolve w vf) = Some content
        \<and> LF \<notin> set line
        \<and> (content = line \<or> content = line @ [CR, LF]
             \<or> (content = line @ [LF] \<and> (line = [] \<or> last line \<noteq> CR)))
      \<longrightarrow> snd (resolveVersion w request) = Inr (Some line))"
  by (auto simp: resolveVersion_def ret_def Let_def replaceFirstLineBreak_none
        replaceFirstLineBreak_crlf replaceFirstLineBreak_lf)

theorem version_priority_counterexample:
  "version_file (params versionFileRequest) = Some ''ver''
   \<and> lstat versionFileWorld (pathResolve versionFileWorld ''ver'')
       = Some \<lparr> st_kind = RegularFile, st_size = 7 \<rparr>
   \<and> readFile versionFileWorld (pathResolve versionFileWorld ''ver'') = Some (''1.0.0 '' @ [LF])
   \<and> snd (resolveVersion versionFileWorld versionFileRequest) = Inr (Some ''1.0.0 '')
   \<and> trimmedContents (''1.0.0 '' @ [LF]) = ''1.0.0''"
  by code_simp

theorem version_priority_witness:
  "snd (resolveVersion versionFileWorld versionFileRequest) = Inr (Some ''1.0.0 '')
   \<and> version (params versionFileRequest) = Some ''9.9.9''
   \<and> resolveVersion rangeWorld rangeRequest = ([], Inr (Some ''2.0.0''))"
  using version_priority [of versionFileRequest versionFileWorld "''ver''"
          "\<lparr> st_kind = RegularFile, st_size = 7 \<rparr>" "''1.0.0 '' @ [LF]" "''1.0.0 ''"]
        version_priority [of rangeRequest rangeWorld]
  by (simp add: versionFileRequest_def versionFileWorld_def exampleWorld_def exampleRequest_def
        rangeRequest_def rangeWorld_def)

lemmas branch_cong =
  if_cong option.case_cong sum.case_cong prod.case_cong exec_result.case_cong
  fetch_result.case_cong yaml_result.case_cong spawn_result.case_cong

lemma repoAddStep_stdin: "repoAddStep (w\<lparr>stdin := x\<rparr>) n name repo = repoAddStep w n name repo"
  by (simp add: repoAddStep_def Let_def cong: branch_cong)

lemma addDependencyRepos_stdin:
  "addDependencyRepos (w\<lparr>stdin := x\<rparr>) n rs = addDependencyRepos w n rs"
proof (induction rs arbitrary: n)
  case Nil
  show ?case by simp
next
  case (Cons a rs)
  obtain name repo where a: "a = (name, repo)" by (cases a)
  show ?case
    by (simp add: a repoAddStep_stdin Cons.IH split: prod.splits exec_result.splits)
qed

lemma createFetchHeaders_stdin:
  "createFetchHeaders (w\<lparr>stdin := x\<rparr>) request = createFetchHeaders w request"
  by (simp add: createFetchHeaders_def cong: branch_cong)

lemma packageChart_stdin:
  "packageChart (w\<lparr>stdin := x\<rparr>) request n ver = packageChart w request n ver"
  by (simp add: packageChart_def packageDirectory_def signChart_def importGpgKey_def
        gpgImportArgs_def Let_def cong: branch_cong)

lemma looseEq_stdin: "looseEq (w\<lparr>stdin := x\<rparr>) s v = looseEq w s v"
  by (simp add: looseEq_def split: option.splits json.splits)

lemma checkChartResp_stdin:
  "checkChartResp (w\<lparr>stdin := x\<rparr>) request ver r = checkChartResp w request ver r"
  by (simp add: checkChartResp_def looseEq_stdin Let_def cong: branch_cong)

lemma afterPackaging_stdin:
  "afterPackaging (w\<lparr>stdin := x\<rparr>) request cf st = afterPackaging w request cf st"
  by (simp add: afterPackaging_def inspectChart_def uploadChart_def uploadHeaders_def
        createFetchHeaders_stdin verifyUpload_def checkChartResp_stdin
        Let_def cong: branch_cong)

lemma registerRepos_stdin:
  "registerRepos (w\<lparr>stdin := x\<rparr>) request = registerRepos w request"
  by (simp add: registerRepos_def addDependencyRepos_stdin cong: branch_cong)

lemma afterRangeCheck_stdin:
  "afterRangeCheck (w\<lparr>stdin := x\<rparr>) request ver = afterRangeCheck w request ver"
  by (simp add: afterRangeCheck_def registerRepos_stdin packageChart_stdin
        afterPackaging_stdin)

lemma createFetchHeaders_version_file:
  "createFetchHeaders w (request\<lparr>params := (params request)\<lparr>version_file := x\<rparr>\<rparr>)
     = createFetchHeaders w request"
  by (simp add: createFetchHeaders_def)

lemma packageChart_version_file:
  "packageChart w (request\<lparr>params := (params request)\<lparr>version_file := x\<rparr>\<rparr>) n ver
     = packageChart w request n ver"
  by (simp add: packageChart_def packageDirectory_def signChart_def signKeyFile_def
        signStaged_def Let_def cong: branch_cong)

lemma afterPackaging_version_file:
  "afterPackaging w (request\<lparr>params := (params request)\<lparr>version_file := x\<rparr>\<rparr>) cf st
     = afterPackaging w request cf st"
  by (simp add: afterPackaging_def uploadChart_def uploadHeaders_def uploadBody_def
        postUrl_def createFetchHeaders_version_file verifyUpload_def chartInfoUrl_def
        checkChartResp_def Let_def cong: branch_cong)

lemma afterRangeCheck_version_file:
  "afterRangeCheck w (request\<lparr>params := (params request)\<lparr>version_file := x\<rparr>\<rparr>) ver
     = afterRangeCheck w request ver"
  by (simp add: afterRangeCheck_def registerRepos_def packageChart_version_file
        afterPackaging_version_file)

lemma checkVersionRange_ignores:
  "checkVersionRange (w\<lparr>stdin := x\<rparr>) (request\<lparr>params := (params request)\<lparr>version_file := y\<rparr>\<rparr>) ver
     = checkVersionRange w request ver"
  by (simp add: checkVersionRange_def cong: option.case_cong if_cong)

text \<open>
  Claim C10. When \<open>version_file\<close> names a path that exists and is not a regular file, the
  branch is skipped without an error: the resolver yields the \<open>version\<close> parameter, and
  the whole run is the run of the same request without \<open>version_file\<close>, after the one
  \<open>lstat\<close> of the path.
\<close>

theorem version_file_not_regular:
  assumes "length (argv w) = 3" and "stdin w = Some request"
    and "version_file (params request) = Some vf"
    and "lstat w (pathResolve w vf) = Some st" and "st_kind st \<noteq> RegularFile"
  shows "resolveVersion w request
           = ([EvLstat (pathResolve w vf)], Inr (version (params request)))
         \<and> out w =
             (EvLstat (pathResolve w vf)
                # fst (out (w\<lparr>stdin := Some (request\<lparr>params := (params request)\<lparr>version_file := None\<rparr>\<rparr>)\<rparr>)),
              snd (out (w\<lparr>stdin := Some (request\<lparr>params := (params request)\<lparr>version_file := None\<rparr>\<rparr>)\<rparr>)))"
proof -
  let ?request' = "request\<lparr>params := (params request)\<lparr>version_file := None\<rparr>\<rparr>"
  let ?w' = "w\<lparr>stdin := Some ?request'\<rparr>"
  have r: "resolveVersion w request
             = ([EvLstat (pathResolve w vf)], Inr (version (params request)))"
    using assms by (simp add: resolveVersion_def)
  have r': "resolveVersion ?w' ?request' = ([], Inr (version (params request)))"
    by (simp add: resolveVersion_def ret_def)
  have rest: "andThen (checkVersionRange ?w' ?request' ver) (\<lambda>_. afterRangeCheck ?w' ?request' ver)
                = andThen (checkVersionRange w request ver) (\<lambda>_. afterRangeCheck w request ver)"
    for ver
    by (simp only: checkVersionRange_ignores afterRangeCheck_stdin afterRangeCheck_version_file)
  have "out w = outRequest w request"
    using assms by (simp add: out_def)
  moreover have "out ?w' = outRequest ?w' ?request'"
    using assms by (simp add: out_def)
  ultimately have "out w = (EvLstat (pathResolve w vf) # fst (out ?w'), snd (out ?w'))"
    unfolding outRequest_def r r' by (simp add: rest)
  with r show ?thesis by simp
qed

theorem version_file_not_regular_witness:
  "lstat versionDirWorld (pathResolve versionDirWorld ''dir'')
     = Some \<lparr> st_kind = Directory, st_size = 0 \<rparr>
   \<and> resolveVersion versionDirWorld versionDirRequest
       = ([EvLstat ''/build/dir''], Inr (Some ''1.0.0''))
   \<and> fst (out versionDirWorld)
       = EvLstat ''/build/dir''
           # fst (out (versionDirWorld\<lparr>stdin := Some (versionDirRequest\<lparr>params := (params versionDirRequest)\<lparr>version_file := None\<rparr>\<rparr>)\<rparr>))"
  using version_file_not_regular [of versionDirWorld versionDirRequest "''dir''"
          "\<lparr> st_kind = Directory, st_size = 0 \<rparr>"]
  by (simp add: versionDirRequest_def versionDirWorld_def exampleWorld_def exampleRequest_def)

text \<open>
  Claim C3. When a version is known before packaging and \<open>source.version_range\<close> is
  set: a version outside the range ends the process with exit code 104, after the reads of
  the version file only (no subprocess, no request to the server); a version inside the
  range lets the pipeline go on with the registrar and the packager.
\<close>

theorem version_range_check:
  assumes "length (argv w) = 3" and "stdin w = Some request"
    and "snd (resolveVersion w request) = Inr (Some v)"
    and "version_range (source request) = Some vr"
  shows "(\<not> semverSatisfies w v vr \<longrightarrow>
            snd (out w) = Inl (Exit 104) \<and> mainExit w = (104, None)
            \<and> fst (out w) = fst (resolveVersion w request)
            \<and> (\<forall>e \<in> set (fst (out w)). \<not> isSubprocess e \<and> \<not> isNetwork e))
         \<and> (semverSatisfies w v vr \<longrightarrow>
              out w = andThen (resolveVersion w request)
                        (\<lambda>_. afterRangeCheck w request (Some v)))"
proof -
  obtain t where t: "resolveVersion w request = (t, Inr (Some v))"
    using assms(3) by (cases "resolveVersion w request") auto
  have o: "out w = outRequest w request"
    using assms by (simp add: out_def)
  show ?thesis
  proof (cases "semverSatisfies w v vr")
    case True
    then show ?thesis
      using assms(4) by (simp add: o outRequest_def t checkVersionRange_def)
  next
    case False
    then have "out w = (t, Inl (Exit 104))"
      using assms(4) by (simp add: o outRequest_def t checkVersionRange_def exitWith_def)
    moreover have "\<forall>e \<in> set t. \<not> isSubprocess e \<and> \<not> isNetwork e"
      using resolveVersion_quiet [of _ w request] by (simp add: t)
    ultimately show ?thesis
      using False by (simp add: t mainExit_def exitStatus_def)
  qed
qed

theorem version_range_check_witness:
  "snd (resolveVersion rangeWorld rangeRequest) = Inr (Some ''2.0.0'')
   \<and> \<not> semverSatisfies rangeWorld ''2.0.0'' ''^1.0.0''
   \<and> snd (out rangeWorld) = Inl (Exit 104) \<and> mainExit rangeWorld = (104, None)
   \<and> fst (out rangeWorld) = []"
proof -
  have h1: "length (argv rangeWorld) = 3"
    by (simp add: rangeWorld_def exampleWorld_def)
  have h2: "stdin rangeWorld = Some rangeRequest"
    by (simp add: rangeWorld_def)
  have h3: "snd (resolveVersion rangeWorld rangeRequest) = Inr (Some ''2.0.0'')"
    by code_simp
  have h4: "version_range (source rangeRequest) = Some ''^1.0.0''"
    by (simp add: rangeRequest_def)
  have h5: "\<not> semverSatisfies rangeWorld ''2.0.0'' ''^1.0.0''"
    by (simp add: rangeWorld_def exampleWorld_def)
  have h6: "fst (resolveVersion rangeWorld rangeRequest) = []"
    by code_simp
  show ?thesis
    using version_range_check [OF h1 h2 h3 h4] h3 h5 h6 by simp
qed

subsection \<open>Traces of the stages\<close>

text \<open>Events of the stages before the archive: none goes to the server, and only the
  signer touches the keyring.\<close>

lemma repoAddStep_events:
  "e \<in> set (fst (snd (repoAddStep w n name repo))) \<Longrightarrow>
     quietEvent e"
  by (auto simp: repoAddStep_def Let_def quietEvent_def split: option.splits)

lemma addDependencyRepos_events:
  "e \<in> set (fst (addDependencyRepos w n rs)) \<Longrightarrow> quietEvent e"
proof (induction rs arbitrary: n)
  case Nil
  then show ?case by (simp add: ret_def)
next
  case (Cons a rs)
  obtain name repo where a: "a = (name, repo)" by (cases a)
  obtain n' staged cmdline where s: "repoAddStep w n name repo = (n', staged, cmdline)"
    by (cases "repoAddStep w n name repo")
  have staged: "e \<in> set staged \<Longrightarrow> quietEvent e"
    using repoAddStep_events [of e w n name repo] by (simp add: s)
  show ?case
  proof (cases "exec w cmdline")
    case (ExecOk so se)
    with Cons.prems have "e \<in> set staged \<or> e = EvExec cmdline
        \<or> e \<in> set (fst (addDependencyRepos w n' rs))"
      by (auto simp: a s)
    then show ?thesis
      using staged Cons.IH by (auto simp: quietEvent_def)
  next
    case (ExecFailed err)
    with Cons.prems have "e \<in> set staged \<or> e = EvExec cmdline"
      by (auto simp: a s)
    then show ?thesis
      using staged by (auto simp: quietEvent_def)
  qed
qed

lemma resolveVersion_events:
  "e \<in> set (fst (resolveVersion w request)) \<Longrightarrow> quietEvent e"
  by (auto simp: resolveVersion_def ret_def Let_def quietEvent_def
        split: option.splits if_splits)

lemma checkVersionRange_trace [simp]: "fst (checkVersionRange w request ver) = []"
  by (simp add: checkVersionRange_def ret_def exitWith_def split: option.splits)

lemma importGpgKey_cases:
  "gpgSpawn w (gpgImportArgs w g kf) pass = SpawnError
     \<and> importGpgKey w g kf pass = ([EvSpawnGpg (gpgImportArgs w g kf) pass], Inl Uncaught)
   \<or> gpgSpawn w (gpgImportArgs w g kf) pass \<noteq> SpawnError
     \<and> (\<exists>e. importGpgKey w g kf pass
               = ([EvSpawnGpg (gpgImportArgs w g kf) pass], Inl (Throw e)))
   \<or> gpgSpawn w (gpgImportArgs w g kf) pass \<noteq> SpawnError
     \<and> (\<exists>keyId. importGpgKey w g kf pass
               = ([EvSpawnGpg (gpgImportArgs w g kf) pass], Inr keyId))"
  by (simp add: importGpgKey_def Let_def split: spawn_result.splits sum.splits)

lemma signStaged_events: "e \<in> set (signStaged p d) \<Longrightarrow> \<exists>f c. e = EvWriteFile f c"
  by (auto simp: signStaged_def split: option.splits)

text \<open>The three ways of the signer: no key, a gpg that cannot be started, and an import
  that closes, after which the keyring is removed whatever the import gave.\<close>

lemma signChart_cases:
  fixes w p tmpDir
  defines "args \<equiv> gpgImportArgs w (mkdtemp w) (signKeyFile p tmpDir)"
  shows "key_data p = None \<and> key_file p = None
           \<and> signChart w p tmpDir = ([], Inl (Exit 332))
         \<or> (key_data p \<noteq> None \<or> key_file p \<noteq> None)
           \<and> gpgSpawn w args (key_passphrase p) = SpawnError
           \<and> signChart w p tmpDir
               = (signStaged p tmpDir
                    @ [EvMkdtemp (mkdtemp w), EvSpawnGpg args (key_passphrase p)],
                  Inl Uncaught)
         \<or> (key_data p \<noteq> None \<or> key_file p \<noteq> None)
           \<and> gpgSpawn w args (key_passphrase p) \<noteq> SpawnError
           \<and> (\<exists>r. signChart w p tmpDir
                    = (signStaged p tmpDir
                         @ [EvMkdtemp (mkdtemp w), EvSpawnGpg args (key_passphrase p),
                            EvDeltree (mkdtemp w)], r))"
proof (cases "key_data p = None \<and> key_file p = None")
  case True
  then show ?thesis by (simp add: signChart_def exitWith_def)
next
  case False
  then have sc: "signChart w p tmpDir
      = andThen (emit (signStaged p tmpDir @ [EvMkdtemp (mkdtemp w)])) (\<lambda>_.
          finallyDo
            (andThen (importGpgKey w (mkdtemp w) (signKeyFile p tmpDir) (key_passphrase p))
               (\<lambda>keyId. ret [''--sign'', ''--key'', keyId, ''--keyring'',
                                quoted (joinPath (mkdtemp w) ''secring.gpg'')]))
            [EvDeltree (mkdtemp w)])"
    unfolding signChart_def Let_def by (simp only: if_False)
  have k: "key_data p \<noteq> None \<or> key_file p \<noteq> None"
    using False by simp
  from importGpgKey_cases [of w "mkdtemp w" "signKeyFile p tmpDir" "key_passphrase p"]
  show ?thesis
  proof (elim disjE conjE exE)
    assume "gpgSpawn w (gpgImportArgs w (mkdtemp w) (signKeyFile p tmpDir)) (key_passphrase p)
              = SpawnError"
      and "importGpgKey w (mkdtemp w) (signKeyFile p tmpDir) (key_passphrase p)
             = ([EvSpawnGpg (gpgImportArgs w (mkdtemp w) (signKeyFile p tmpDir))
                   (key_passphrase p)], Inl Uncaught)"
    then show ?thesis
      using k by (simp add: sc finallyDo_def args_def)
  next
    fix e
    assume "gpgSpawn w (gpgImportArgs w (mkdtemp w) (signKeyFile p tmpDir)) (key_passphrase p)
              \<noteq> SpawnError"
      and "importGpgKey w (mkdtemp w) (signKeyFile p tmpDir) (key_passphrase p)
             = ([EvSpawnGpg (gpgImportArgs w (mkdtemp w) (signKeyFile p tmpDir))
                   (key_passphrase p)], Inl (Throw e))"
    then show ?thesis
      using k by (simp add: sc finallyDo_def args_def)
  next
    fix keyId
    assume "gpgSpawn w (gpgImportArgs w (mkdtemp w) (signKeyFile p tmpDir)) (key_passphrase p)
              \<noteq> SpawnError"
      and "importGpgKey w (mkdtemp w) (signKeyFile p tmpDir) (key_passphrase p)
             = ([EvSpawnGpg (gpgImportArgs w (mkdtemp w) (signKeyFile p tmpDir))
                   (key_passphrase p)], Inr keyId)"
    then show ?thesis
      using k by (simp add: sc finallyDo_def ret_def args_def)
  qed
qed

text \<open>The trace of the packager: quiet events around the trace of the signer, which is
  there only for a directory with \<open>sign\<close> set.\<close>

lemma packageDirectory_trace:
  "\<exists>pre sg post.
     fst (packageDirectory w request n ver loc) = pre @ sg @ post
     \<and> (\<forall>e \<in> set pre. quietEvent e \<and> \<not> isSubprocess e) \<and> (\<forall>e \<in> set post. quietEvent e)
     \<and> (sg = [] \<or> sign (params request) = Some True
                    \<and> sg = fst (signChart w (params request) (tmpDirs w n)))"
proof (cases "yamlLoad w (joinPath loc ''Chart.yaml'')")
  case YamlThrows
  then have "fst (packageDirectory w request n ver loc)
               = [EvYamlLoad (joinPath loc ''Chart.yaml'')] @ [] @ []"
    by (simp add: packageDirectory_def)
  then show ?thesis
    by (intro exI [of _ "[EvYamlLoad (joinPath loc ''Chart.yaml'')]"] exI [of _ "[]"])
       (simp add: quietEvent_def)
next
  case (YamlLoaded chartInfo)
  let ?pre = "[EvYamlLoad (joinPath loc ''Chart.yaml''), EvTmpDir (tmpDirs w n)]"
  let ?sign = "if sign (params request) = Some True
               then signChart w (params request) (tmpDirs w n) else ret []"
  obtain sg r where sg: "?sign = (sg, r)" by (cases ?sign)
  have sg': "sg = [] \<or> sign (params request) = Some True
                          \<and> sg = fst (signChart w (params request) (tmpDirs w n))"
    using sg by (auto simp: ret_def split: if_splits)
  have "\<exists>post. fst (packageDirectory w request n ver loc) = ?pre @ sg @ post
              \<and> (\<forall>e \<in> set post. quietEvent e)"
  proof (cases r)
    case (Inl h)
    then have "fst (packageDirectory w request n ver loc) = ?pre @ sg @ []"
      using YamlLoaded sg by (simp add: packageDirectory_def Let_def)
    then show ?thesis by simp
  next
    case (Inr signArgs)
    let ?cmdline = "joinWith '' ''
        ([''helm'', ''package'', ''--destination'', tmpDirs w n]
           @ (if dependency_update (params request) = Some True
              then [''--dependency-update''] else [])
           @ signArgs
           @ (case ver of Some v \<Rightarrow> [''--version'', v] | None \<Rightarrow> [])
           @ [loc])"
    have "fst (packageDirectory w request n ver loc) = ?pre @ sg @ [EvExec ?cmdline]
          \<or> (\<exists>chartFile. fst (packageDirectory w request n ver loc)
                = ?pre @ sg @ [EvExec ?cmdline, EvLstat chartFile])"
      using YamlLoaded sg Inr
      by (simp add: packageDirectory_def Let_def split: exec_result.splits option.splits)
    then show ?thesis
    proof (elim disjE exE)
      assume "fst (packageDirectory w request n ver loc) = ?pre @ sg @ [EvExec ?cmdline]"
      then show ?thesis
        by (intro exI [of _ "[EvExec ?cmdline]"]) (simp add: quietEvent_def)
    next
      fix chartFile
      assume "fst (packageDirectory w request n ver loc)
                = ?pre @ sg @ [EvExec ?cmdline, EvLstat chartFile]"
      then show ?thesis
        by (intro exI [of _ "[EvExec ?cmdline, EvLstat chartFile]"])
           (simp add: quietEvent_def)
    qed
  qed
  then obtain post where "fst (packageDirectory w request n ver loc) = ?pre @ sg @ post"
    and "\<forall>e \<in> set post. quietEvent e" by blast
  with sg' show ?thesis
    by (intro exI [of _ ?pre] exI [of _ sg] exI [of _ post]) (simp add: quietEvent_def)
qed

lemma packageChart_trace:
  "\<exists>pre sg post.
     fst (packageChart w request n ver) = pre @ sg @ post
     \<and> (\<forall>e \<in> set pre. quietEvent e \<and> \<not> isSubprocess e) \<and> (\<forall>e \<in> set post. quietEvent e)
     \<and> (sg = [] \<or> sign (params request) = Some True
                    \<and> sg = fst (signChart w (params request) (tmpDirs w n))
                    \<and> (\<exists>st. lstat w (pathResolve w (chart (params request))) = Some st
                             \<and> st_kind st = Directory))"
proof -
  let ?loc = "pathResolve w (chart (params request))"
  show ?thesis
  proof (cases "\<exists>st. lstat w ?loc = Some st \<and> st_kind st = Directory")
    case True
    then obtain st where st: "lstat w ?loc = Some st" "st_kind st = Directory" by blast
    obtain pre sg post where p':
      "fst (packageDirectory w request n ver ?loc) = pre @ sg @ post
       \<and> (\<forall>e \<in> set pre. quietEvent e \<and> \<not> isSubprocess e) \<and> (\<forall>e \<in> set post. quietEvent e)
       \<and> (sg = [] \<or> sign (params request) = Some True
                   \<and> sg = fst (signChart w (params request) (tmpDirs w n)))"
      using packageDirectory_trace [of w request n ver ?loc] by (elim exE)
    then have p:
      "fst (packageDirectory w request n ver ?loc) = pre @ sg @ post"
      "\<forall>e \<in> set pre. quietEvent e \<and> \<not> isSubprocess e" "\<forall>e \<in> set post. quietEvent e"
      "sg = [] \<or> sign (params request) = Some True
                   \<and> sg = fst (signChart w (params request) (tmpDirs w n))"
      by simp_all
    have "fst (packageChart w request n ver) = (EvLstat ?loc # pre) @ sg @ post"
      using st p(1) by (simp add: packageChart_def Let_def)
    with p st show ?thesis
      by (intro exI [of _ "EvLstat ?loc # pre"] exI [of _ sg] exI [of _ post])
         (auto simp: quietEvent_def)
  next
    case False
    then have "fst (packageChart w request n ver) = [EvLstat ?loc] @ [] @ []"
      by (auto simp: packageChart_def Let_def split: option.splits)
    then show ?thesis
      by (intro exI [of _ "[EvLstat ?loc]"] exI [of _ "[]"]) (simp add: quietEvent_def)
  qed
qed

subsection \<open>The keyring\<close>

lemma keyringOnDisk_append:
  "keyringOnDisk g (a @ b) s = keyringOnDisk g b (keyringOnDisk g a s)"
  by (induction a arbitrary: s) auto

lemma usedWhileOnDisk_append:
  "usedWhileOnDisk g (a @ b) s
     = (usedWhileOnDisk g a s \<or> usedWhileOnDisk g b (keyringOnDisk g a s))"
  by (induction a arbitrary: s) auto

lemma keyringStep_other: "\<not> isKeyringEvent e \<Longrightarrow> keyringStep g e s = s"
  by (cases e) auto

lemma keyringOnDisk_other:
  "\<forall>e \<in> set t. \<not> isKeyringEvent e \<Longrightarrow> keyringOnDisk g t s = s"
  by (induction t arbitrary: s) (auto simp: keyringStep_other)

lemma usedWhileOnDisk_other:
  "\<forall>e \<in> set t. \<not> isKeyringEvent e \<Longrightarrow> \<not> usedWhileOnDisk g t False"
  by (induction t) (auto simp: keyringStep_other)

lemma keyringSafe_Nil [simp]: "keyringSafe g []"
  by (simp add: keyringSafe_def)

lemma keyringSafe_quiet: "\<forall>e \<in> set t. quietEvent e \<Longrightarrow> keyringSafe g t"
  by (simp add: keyringSafe_def keyringOnDisk_other usedWhileOnDisk_other quietEvent_def)

lemma keyringSafe_other: "\<forall>e \<in> set t. \<not> isKeyringEvent e \<Longrightarrow> keyringSafe g t"
  by (simp add: keyringSafe_def keyringOnDisk_other usedWhileOnDisk_other)

lemma keyringSafe_append: "keyringSafe g a \<Longrightarrow> keyringSafe g b \<Longrightarrow> keyringSafe g (a @ b)"
  by (simp add: keyringSafe_def keyringOnDisk_append usedWhileOnDisk_append)

lemma keyringSafe_andThen:
  assumes "keyringSafe g (fst m)" and "\<And>a. keyringSafe g (fst (f a))"
  shows "keyringSafe g (fst (andThen m f))"
  using assms by (cases "snd m") (simp_all add: fst_andThen keyringSafe_append)

text \<open>As long as gpg can be started, every stage leaves the keyring off disk.\<close>

lemma signChart_safe:
  assumes "\<And>args pass. gpgSpawn w args pass \<noteq> SpawnError"
  shows "keyringSafe (mkdtemp w) (fst (signChart w p tmpDir))"
proof -
  let ?args = "gpgImportArgs w (mkdtemp w) (signKeyFile p tmpDir)"
  have st: "keyringSafe (mkdtemp w) (signStaged p tmpDir)"
    using signStaged_events [of _ p tmpDir] by (intro keyringSafe_other) fastforce
  have "keyringSafe (mkdtemp w)
        [EvMkdtemp (mkdtemp w), EvSpawnGpg ?args (key_passphrase p), EvDeltree (mkdtemp w)]"
    by (simp add: keyringSafe_def)
  with st have "keyringSafe (mkdtemp w)
        (signStaged p tmpDir
           @ [EvMkdtemp (mkdtemp w), EvSpawnGpg ?args (key_passphrase p),
              EvDeltree (mkdtemp w)])"
    by (rule keyringSafe_append)
  then show ?thesis
    using signChart_cases [where w = w and p = p and tmpDir = tmpDir] assms by auto
qed

lemma packageChart_safe:
  assumes "\<And>args pass. gpgSpawn w args pass \<noteq> SpawnError"
  shows "keyringSafe (mkdtemp w) (fst (packageChart w request n ver))"
proof -
  obtain pre sg post where p':
    "fst (packageChart w request n ver) = pre @ sg @ post
     \<and> (\<forall>e \<in> set pre. quietEvent e \<and> \<not> isSubprocess e) \<and> (\<forall>e \<in> set post. quietEvent e)
     \<and> (sg = [] \<or> sign (params request) = Some True
                    \<and> sg = fst (signChart w (params request) (tmpDirs w n))
                    \<and> (\<exists>st. lstat w (pathResolve w (chart (params request))) = Some st
                             \<and> st_kind st = Directory))"
    using packageChart_trace [of w request n ver] by (elim exE)
  then have "keyringSafe (mkdtemp w) pre" and "keyringSafe (mkdtemp w) post"
    by (simp_all add: keyringSafe_quiet)
  moreover have "keyringSafe (mkdtemp w) sg"
    using p' signChart_safe [OF assms] by auto
  ultimately show ?thesis
    using p' by (simp add: keyringSafe_append)
qed

lemma resolveVersion_safe: "keyringSafe g (fst (resolveVersion w request))"
  using resolveVersion_events by (intro keyringSafe_quiet) blast

lemma addDependencyRepos_safe: "keyringSafe g (fst (addDependencyRepos w n rs))"
  using addDependencyRepos_events by (intro keyringSafe_quiet) blast

lemma registerRepos_safe: "keyringSafe g (fst (registerRepos w request))"
  by (simp add: registerRepos_def addDependencyRepos_safe ret_def split: option.splits)

lemma inspectChart_trace [simp]: "fst (inspectChart w cf) = [EvExec (inspectCommand cf)]"
  by (simp add: inspectChart_def split: exec_result.splits option.splits)

lemma uploadChart_trace [simp]:
  "fst (uploadChart w request cf st)
     = [EvPost (postUrl request) (uploadHeaders w request cf st) (uploadBody request cf)]"
  by (simp add: uploadChart_def Let_def)

lemma verifyUpload_trace [simp]:
  "fst (verifyUpload w request ver)
     = [EvGet (chartInfoUrl request ver) (createFetchHeaders w request)]"
  by (simp add: verifyUpload_def Let_def)

lemma afterPackaging_safe: "keyringSafe g (fst (afterPackaging w request cf st))"
  unfolding afterPackaging_def
  by (intro keyringSafe_andThen) (simp_all add: keyringSafe_def)

lemma outRequest_safe:
  assumes "\<And>args pass. gpgSpawn w args pass \<noteq> SpawnError"
  shows "keyringSafe (mkdtemp w) (fst (outRequest w request))"
  unfolding outRequest_def afterRangeCheck_def
  by (intro keyringSafe_andThen resolveVersion_safe registerRepos_safe
        packageChart_safe [OF assms])
     (simp_all add: afterPackaging_safe split: prod.splits)

text \<open>
  In a world where gpg can be started, the keyring directory is not on disk at the end of
  any run, whatever its outcome, and no command is executed and no request is sent while
  it is on disk.
\<close>

lemma keyring_removed_when_gpg_starts:
  assumes "\<And>args pass. gpgSpawn w args pass \<noteq> SpawnError"
  shows "\<not> keyringOnDisk (mkdtemp w) (fst (out w)) False
         \<and> \<not> usedWhileOnDisk (mkdtemp w) (fst (out w)) False"
proof -
  have "keyringSafe (mkdtemp w) (fst (out w))"
    by (simp add: out_def exitWith_def outRequest_safe [OF assms] split: option.splits)
  then show ?thesis
    by (simp add: keyringSafe_def)
qed

text \<open>
  Claim C5 (the code fails it). The claim asks for the keyring to be gone after the
  import on every failure path. When gpg cannot be started, the child's \<open>error\<close> event
  has no listener (lines 45 to 62), the process dies, and the \<open>finally\<close> block of lines
  232 to 235 never runs: the run below ends right after the spawn, with the keyring
  directory created by \<open>mkdtemp\<close> still on disk.
\<close>

theorem keyring_left_when_gpg_fails:
  "gpgSpawn spawnErrorWorld
     (gpgImportArgs spawnErrorWorld ''/tmp/kr'' ''/tmp/t/gpg-key.asc'') None = SpawnError
   \<and> out spawnErrorWorld
       = ([EvLstat ''/build/chart'', EvYamlLoad ''/build/chart/Chart.yaml'',
           EvTmpDir ''/tmp/t'', EvWriteFile ''/tmp/t/gpg-key.asc'' ''KEY'',
           EvMkdtemp ''/tmp/kr'',
           EvSpawnGpg (gpgImportArgs spawnErrorWorld ''/tmp/kr'' ''/tmp/t/gpg-key.asc'') None],
          Inl Uncaught)
   \<and> keyringOnDisk (mkdtemp spawnErrorWorld) (fst (out spawnErrorWorld)) False
   \<and> mainExit spawnErrorWorld = (1, None)"
  by code_simp

subsection \<open>The run before and after the archive\<close>

lemma andThen_fst_cases:
  "(\<exists>h. snd m = Inl h \<and> fst (andThen m f) = fst m)
   \<or> (\<exists>a. snd m = Inr a \<and> fst (andThen m f) = fst m @ fst (f a))"
  by (cases "snd m") (simp_all add: fst_andThen)

lemma andThen_snd_Inr:
  "snd (andThen m f) = Inr b \<Longrightarrow> \<exists>a. snd m = Inr a \<and> snd (f a) = Inr b"
  by (cases "snd m") (simp_all add: snd_andThen)

lemma out_started:
  "length (argv w) = 3 \<Longrightarrow> stdin w = Some request \<Longrightarrow>
   out w = andThen (prePackaging w request) (\<lambda>(cf, st). afterPackaging w request cf st)"
  by (simp add: out_def outRequest_def afterRangeCheck_def prePackaging_def andThen_assoc)

text \<open>The run up to the archive: quiet events, then the trace of the packager if the
  run gets that far.\<close>

lemma prePackaging_split:
  "\<exists>q P. fst (prePackaging w request) = q @ P \<and> (\<forall>e \<in> set q. quietEvent e)
     \<and> (P = [] \<or> (\<exists>n ver. P = fst (packageChart w request n ver)))"
proof -
  let ?deps = "registerRepos w request"
  have dq: "\<forall>e \<in> set (fst ?deps). quietEvent e"
    using addDependencyRepos_events
    by (auto simp: registerRepos_def ret_def split: option.splits)
  have rq: "\<forall>e \<in> set (fst (resolveVersion w request)). quietEvent e"
    using resolveVersion_events by blast
  show ?thesis
  proof (cases "snd (resolveVersion w request)")
    case (Inl h)
    then have "fst (prePackaging w request) = fst (resolveVersion w request) @ []"
      by (simp add: prePackaging_def fst_andThen)
    with rq show ?thesis by blast
  next
    case ver: (Inr ver)
    show ?thesis
    proof (cases "snd (checkVersionRange w request ver)")
      case (Inl h)
      then have "fst (prePackaging w request) = fst (resolveVersion w request) @ []"
        using ver by (simp add: prePackaging_def fst_andThen)
      with rq show ?thesis by blast
    next
      case chk: (Inr u)
      show ?thesis
      proof (cases "snd ?deps")
        case (Inl h)
        then have "fst (prePackaging w request)
                     = (fst (resolveVersion w request) @ fst ?deps) @ []"
          using ver chk by (simp add: prePackaging_def fst_andThen)
        moreover have "\<forall>e \<in> set (fst (resolveVersion w request) @ fst ?deps). quietEvent e"
          using rq dq by auto
        ultimately show ?thesis by blast
      next
        case (Inr n)
        then have "fst (prePackaging w request)
                     = (fst (resolveVersion w request) @ fst ?deps)
                         @ fst (packageChart w request n ver)"
          using ver chk by (simp add: prePackaging_def fst_andThen)
        moreover have "\<forall>e \<in> set (fst (resolveVersion w request) @ fst ?deps). quietEvent e"
          using rq dq by auto
        ultimately show ?thesis by blast
      qed
    qed
  qed
qed

lemma prePackaging_no_network:
  assumes "e \<in> set (fst (prePackaging w request))"
  shows "\<not> isNetwork e"
proof -
  obtain q P where qp: "fst (prePackaging w request) = q @ P \<and> (\<forall>e \<in> set q. quietEvent e)
     \<and> (P = [] \<or> (\<exists>n ver. P = fst (packageChart w request n ver)))"
    using prePackaging_split [of w request] by (elim exE)
  have "\<not> isNetwork e" if "e \<in> set (fst (packageChart w request n ver))" for n ver
  proof -
    obtain pre sg post where p:
      "fst (packageChart w request n ver) = pre @ sg @ post
       \<and> (\<forall>e \<in> set pre. quietEvent e \<and> \<not> isSubprocess e) \<and> (\<forall>e \<in> set post. quietEvent e)
       \<and> (sg = [] \<or> sign (params request) = Some True
                    \<and> sg = fst (signChart w (params request) (tmpDirs w n))
                    \<and> (\<exists>st. lstat w (pathResolve w (chart (params request))) = Some st
                             \<and> st_kind st = Directory))"
      using packageChart_trace [of w request n ver] by (elim exE)
    have "\<not> isNetwork e" if "e \<in> set (fst (signChart w (params request) (tmpDirs w n)))"
      using signChart_cases [where w = w and p = "params request" and tmpDir = "tmpDirs w n"]
        signStaged_events [of e "params request" "tmpDirs w n"] that
      by auto
    with p that show ?thesis
      by (auto simp: quietEvent_def)
  qed
  with qp assms show ?thesis
    by (auto simp: quietEvent_def)
qed

lemma packageChart_archive:
  assumes "snd (packageChart w request n ver) = Inr (cf, st)"
  shows "cf = pathResolve w (chart (params request)) \<and> lstat w cf = Some st
           \<and> st_kind st = RegularFile
         \<or> lstatArchive w cf = Some st
           \<and> (\<exists>d. lstat w (pathResolve w (chart (params request))) = Some d
                   \<and> st_kind d = Directory)"
proof -
  let ?loc = "pathResolve w (chart (params request))"
  obtain d where d: "lstat w ?loc = Some d"
    using assms by (cases "lstat w ?loc") (auto simp: packageChart_def Let_def)
  show ?thesis
  proof (cases "st_kind d = Directory")
    case False
    with assms d show ?thesis
      by (auto simp: packageChart_def Let_def split: if_splits)
  next
    case True
    then have "snd (packageDirectory w request n ver ?loc) = Inr (cf, st)"
      using assms d by (simp add: packageChart_def Let_def)
    then have "lstatArchive w cf = Some st"
      by (auto simp: packageDirectory_def Let_def snd_andThen
            split: option.splits sum.splits exec_result.splits yaml_result.splits)
    with d True show ?thesis by blast
  qed
qed

lemma prePackaging_archive:
  assumes "snd (prePackaging w request) = Inr (cf, st)"
  shows "cf = pathResolve w (chart (params request)) \<and> lstat w cf = Some st
           \<and> st_kind st = RegularFile
         \<or> lstatArchive w cf = Some st
           \<and> (\<exists>d. lstat w (pathResolve w (chart (params request))) = Some d
                   \<and> st_kind d = Directory)"
proof -
  from assms obtain n ver where "snd (packageChart w request n ver) = Inr (cf, st)"
    unfolding prePackaging_def by (fastforce dest!: andThen_snd_Inr)
  then show ?thesis by (rule packageChart_archive)
qed

lemma inspectChart_Inr:
  "snd (inspectChart w cf) = Inr ver \<longleftrightarrow>
     (\<exists>so se line. exec w (inspectCommand cf) = ExecOk so se
        \<and> find (prefix ''version:'') (splitLines so) = Some line
        \<and> ver = parseVersionLine line)"
  by (auto simp: inspectChart_def split: exec_result.splits option.splits)

lemma out_after_archive:
  assumes "length (argv w) = 3" and "stdin w = Some request"
    and "snd (prePackaging w request) = Inr (cf, st)"
  shows "out w = (fst (prePackaging w request) @ fst (afterPackaging w request cf st),
                  snd (afterPackaging w request cf st))"
proof -
  obtain t where "prePackaging w request = (t, Inr (cf, st))"
    using assms(3) by (cases "prePackaging w request") auto
  then show ?thesis
    by (simp add: out_started [OF assms(1,2)])
qed

lemma out_network_event:
  assumes "length (argv w) = 3" and "stdin w = Some request"
    and "e \<in> set (fst (out w))" and "isNetwork e"
  shows "\<exists>cf st. snd (prePackaging w request) = Inr (cf, st)
                \<and> e \<in> set (fst (afterPackaging w request cf st))"
proof (cases "snd (prePackaging w request)")
  case (Inl h)
  then have "fst (out w) = fst (prePackaging w request)"
    by (simp add: out_started [OF assms(1,2)] fst_andThen)
  with assms(3,4) prePackaging_no_network show ?thesis by metis
next
  case (Inr a)
  obtain cf st where a: "a = (cf, st)" by (cases a)
  have "e \<in> set (fst (prePackaging w request)) \<or> e \<in> set (fst (afterPackaging w request cf st))"
    using assms(3) out_after_archive [OF assms(1,2)] Inr a by auto
  with assms(4) prePackaging_no_network Inr a show ?thesis by metis
qed

text \<open>The three ways the run after the archive can go.\<close>

lemma afterPackaging_cases:
  fixes w request cf st
  defines "u \<equiv> postUrl request" and "hs \<equiv> uploadHeaders w request cf st"
    and "body \<equiv> uploadBody request cf"
  shows "(\<exists>h. snd (inspectChart w cf) = Inl h
            \<and> afterPackaging w request cf st = ([EvExec (inspectCommand cf)], Inl h))
       \<or> (\<exists>ver h. snd (inspectChart w cf) = Inr ver
            \<and> checkPostResult (fetchPost w u hs body) = Inl h
            \<and> afterPackaging w request cf st
                = ([EvExec (inspectCommand cf), EvPost u hs body], Inl h))
       \<or> (\<exists>ver. snd (inspectChart w cf) = Inr ver
            \<and> checkPostResult (fetchPost w u hs body) = Inr ()
            \<and> afterPackaging w request cf st
                = ([EvExec (inspectCommand cf), EvPost u hs body,
                    EvGet (chartInfoUrl request ver) (createFetchHeaders w request)],
                   checkChartResp w request ver
                     (fetchGet w (chartInfoUrl request ver) (createFetchHeaders w request))))"
proof -
  obtain r where i: "inspectChart w cf = ([EvExec (inspectCommand cf)], r)"
    using inspectChart_trace [of w cf] by (cases "inspectChart w cf") auto
  show ?thesis
  proof (cases r)
    case (Inl h)
    then show ?thesis by (simp add: afterPackaging_def i)
  next
    case (Inr ver)
    show ?thesis
    proof (cases "checkPostResult (fetchPost w u hs body)")
      case (Inl h)
      then show ?thesis
        using Inr by (simp add: afterPackaging_def i uploadChart_def Let_def u_def hs_def body_def)
    next
      case Inr': (Inr x)
      then show ?thesis
        using Inr
        by (simp add: afterPackaging_def i uploadChart_def verifyUpload_def Let_def
              u_def hs_def body_def)
    qed
  qed
qed

subsection \<open>Uploader and Publish Verifier\<close>

lemma digitsValue_decimal: "digitsValue (decimal n) = n"
proof (induction n rule: decimal.induct)
  case (1 n)
  show ?case
  proof (cases "n < 10")
    case True
    then show ?thesis
      by (subst decimal.simps) (simp add: digitsValue_def)
  next
    case False
    with 1 have "digitsValue (decimal (n div 10)) = n div 10" by simp
    with False show ?thesis
      by (subst decimal.simps) (simp add: digitsValue_def)
  qed
qed

lemma afterPackaging_post:
  assumes "EvPost u hs body \<in> set (fst (afterPackaging w request cf st))"
  shows "u = postUrl request \<and> hs = uploadHeaders w request cf st
         \<and> body = uploadBody request cf
         \<and> (\<exists>ver. snd (inspectChart w cf) = Inr ver
               \<and> snd (afterPackaging w request cf st)
                   = (case checkPostResult (fetchPost w u hs body) of
                        Inl h \<Rightarrow> Inl h
                      | Inr x \<Rightarrow> checkChartResp w request ver
                          (fetchGet w (chartInfoUrl request ver) (createFetchHeaders w request)))
               \<and> ((\<exists>url hs'. EvGet url hs' \<in> set (fst (afterPackaging w request cf st)))
                    \<longleftrightarrow> checkPostResult (fetchPost w u hs body) = Inr ()))"
  using afterPackaging_cases [of w cf request st] assms by auto

lemma afterPackaging_get:
  assumes "EvGet url hs \<in> set (fst (afterPackaging w request cf st))"
  shows "hs = createFetchHeaders w request
         \<and> (\<exists>ver. snd (inspectChart w cf) = Inr ver \<and> url = chartInfoUrl request ver
               \<and> checkPostResult (fetchPost w (postUrl request)
                     (uploadHeaders w request cf st) (uploadBody request cf)) = Inr ()
               \<and> snd (afterPackaging w request cf st)
                   = checkChartResp w request ver (fetchGet w url hs))"
  using afterPackaging_cases [of w cf request st] assms by auto

lemma afterPackaging_quiet_keys:
  "e \<in> set (fst (afterPackaging w request cf st)) \<Longrightarrow> \<not> isGpgSpawn e"
  using afterPackaging_cases [of w cf request st] by auto

lemma out_post:
  assumes "length (argv w) = 3" and "stdin w = Some request"
    and "EvPost u hs body \<in> set (fst (out w))"
  shows "\<exists>cf st ver. snd (prePackaging w request) = Inr (cf, st)
           \<and> snd (inspectChart w cf) = Inr ver
           \<and> u = postUrl request \<and> hs = uploadHeaders w request cf st
           \<and> body = uploadBody request cf
           \<and> snd (out w)
               = (case checkPostResult (fetchPost w u hs body) of
                    Inl h \<Rightarrow> Inl h
                  | Inr x \<Rightarrow> checkChartResp w request ver
                      (fetchGet w (chartInfoUrl request ver) (createFetchHeaders w request)))
           \<and> ((\<exists>url hs'. EvGet url hs' \<in> set (fst (out w)))
                \<longleftrightarrow> checkPostResult (fetchPost w u hs body) = Inr ())"
proof -
  obtain cf st where a: "snd (prePackaging w request) = Inr (cf, st)"
    and e: "EvPost u hs body \<in> set (fst (afterPackaging w request cf st))"
    using out_network_event [OF assms(1,2,3)] by auto
  have o: "out w = (fst (prePackaging w request) @ fst (afterPackaging w request cf st),
                  snd (afterPackaging w request cf st))"
    by (rule out_after_archive [OF assms(1,2) a])
  have g: "(\<exists>url hs'. EvGet url hs' \<in> set (fst (out w)))
        \<longleftrightarrow> (\<exists>url hs'. EvGet url hs' \<in> set (fst (afterPackaging w request cf st)))"
  proof -
    have "EvGet url hs' \<notin> set (fst (prePackaging w request))" for url hs'
      using prePackaging_no_network [of "EvGet url hs'" w request] by auto
    then show ?thesis by (auto simp: o)
  qed
  show ?thesis
    using afterPackaging_post [OF e] a by (simp only: g) (auto simp: o)
qed

lemma out_get:
  assumes "length (argv w) = 3" and "stdin w = Some request"
    and "EvGet url hs \<in> set (fst (out w))"
  shows "\<exists>cf st ver. snd (prePackaging w request) = Inr (cf, st)
           \<and> snd (inspectChart w cf) = Inr ver
           \<and> url = chartInfoUrl request ver \<and> hs = createFetchHeaders w request
           \<and> checkPostResult (fetchPost w (postUrl request)
                 (uploadHeaders w request cf st) (uploadBody request cf)) = Inr ()
           \<and> snd (out w) = checkChartResp w request ver (fetchGet w url hs)"
proof -
  obtain cf st where a: "snd (prePackaging w request) = Inr (cf, st)"
    and e: "EvGet url hs \<in> set (fst (afterPackaging w request cf st))"
    using out_network_event [OF assms(1,2,3)] by auto
  have o: "out w = (fst (prePackaging w request) @ fst (afterPackaging w request cf st),
                  snd (afterPackaging w request cf st))"
    by (rule out_after_archive [OF assms(1,2) a])
  show ?thesis
    using afterPackaging_get [OF e] a by (auto simp: o)
qed


lemma mainExit_Exit: "snd (out w) = Inl (Exit n) \<Longrightarrow> mainExit w = (exitStatus n, None)"
  by (simp add: mainExit_def)




lemma createFetchHeaders_names: "h \<in> set (createFetchHeaders w request) \<Longrightarrow> fst h = ''Authorization''"
  by (auto simp: createFetchHeaders_def split: option.splits if_splits)

lemma basename_joinPath:
  assumes "CHR ''/'' \<notin> set name" and "name \<noteq> []"
  shows "basename (joinPath dir name) = name"
proof -
  obtain c cs where r: "rev name = c # cs"
    using assms(2) by (cases "rev name") auto
  have c: "c \<noteq> CHR ''/''"
    using assms(1) r by (metis list.set_intros(1) set_rev)
  have d: "dropWhile (\<lambda>c. c = CHR ''/'') (rev (joinPath dir name))
             = rev name @ CHR ''/'' # rev dir"
    by (simp add: joinPath_def r c)
  have "takeWhile (\<lambda>c. c \<noteq> CHR ''/'') (rev name @ CHR ''/'' # rev dir)
          = takeWhile (\<lambda>c. c \<noteq> CHR ''/'') (rev name)"
    by (rule takeWhile_tail) simp
  also have "\<dots> = rev name"
    using assms(1) by (auto simp: takeWhile_eq_all_conv)
  finally show ?thesis
    by (simp add: basename_def d)
qed

text \<open>
  Claim C7. The upload of a run is shaped by \<open>harbor_api\<close> alone. With \<open>harbor_api\<close>
  true the body is a multipart form with the archive and the headers are those of
  \<open>createFetchHeaders\<close>, that is at most \<open>Authorization\<close>: no length is set. Otherwise
  the body is the archive as a stream and two headers are added, \<open>Content-length\<close> with
  the decimal size of the archive as \<open>lstat\<close> reports it, and \<open>Content-Disposition\<close>
  with the base name of the archive as the attachment's file name.
\<close>

theorem upload_shaping:
  assumes "length (argv w) = 3" and "stdin w = Some request"
    and "EvPost u hs body \<in> set (fst (out w))"
  shows "\<exists>cf st. snd (prePackaging w request) = Inr (cf, st)
           \<and> (lstat w cf = Some st \<or> lstatArchive w cf = Some st)
           \<and> (harbor_api (source request) = Some True \<longrightarrow>
                 body = Multipart cf \<and> hs = createFetchHeaders w request
                 \<and> (\<forall>h \<in> set hs. fst h = ''Authorization''))
           \<and> (harbor_api (source request) \<noteq> Some True \<longrightarrow>
                 body = RawStream cf
                 \<and> hs = createFetchHeaders w request
                         @ [(''Content-length'', decimal (st_size st)),
                            (''Content-Disposition'',
                             ''attachment; filename='' @ quoted (basename cf))]
                 \<and> digitsValue (decimal (st_size st)) = st_size st)"
proof -
  obtain cf st where a: "snd (prePackaging w request) = Inr (cf, st)"
    and h: "hs = uploadHeaders w request cf st" and b: "body = uploadBody request cf"
    using out_post [OF assms] by auto
  have "lstat w cf = Some st \<or> lstatArchive w cf = Some st"
    using prePackaging_archive [OF a] by auto
  with a show ?thesis
    by (intro exI [of _ cf] exI [of _ st])
       (auto simp: h b uploadHeaders_def uploadBody_def digitsValue_decimal
          dest: createFetchHeaders_names)
qed

theorem upload_shaping_witness:
  "EvPost ''http://cm/api/charts'' [] (Multipart ''/tmp/t/app-1.0.0.tgz'')
     \<in> set (fst (out harborWorld))
   \<and> (\<exists>cf st. snd (prePackaging harborWorld harborRequest) = Inr (cf, st)
         \<and> (lstat harborWorld cf = Some st \<or> lstatArchive harborWorld cf = Some st)
         \<and> Multipart ''/tmp/t/app-1.0.0.tgz'' = Multipart cf
         \<and> [] = createFetchHeaders harborWorld harborRequest)"
proof -
  have h1: "length (argv harborWorld) = 3"
    by (simp add: harborWorld_def exampleWorld_def)
  have h2: "stdin harborWorld = Some harborRequest"
    by (simp add: harborWorld_def)
  have h3: "EvPost ''http://cm/api/charts'' [] (Multipart ''/tmp/t/app-1.0.0.tgz'')
              \<in> set (fst (out harborWorld))"
    by code_simp
  have h4: "harbor_api (source harborRequest) = Some True"
    by (simp add: harborRequest_def)
  show ?thesis
    using upload_shaping [OF h1 h2 h3] h3 h4 by auto
qed

lemma response_names:
  "map fst (resp_metadata (plainResponse cj))
     = [''created'', ''description'', ''appVersion'', ''home'', ''tillerVersion'']"
  "map fst (resp_metadata (harborResponse cj md)) = [''created'', ''description'', ''appVersion'']"
  by (simp_all add: plainResponse_def harborResponse_def)

text \<open>
  Claim C9 (as amended). The verification request of a run goes to
  \<open>server_url/chart_name/version\<close> for the version the inspection printed, with headers
  built anew. When the answer is a success with a decoded body, the version field of the
  dialect (under \<open>metadata\<close> for Harbor, at the top otherwise) decides: if it is the
  string equal to that version the run returns the response, whose version is that
  string and whose metadata entries are \<open>created\<close>, \<open>description\<close>, \<open>appVersion\<close>
  for Harbor and these with \<open>home\<close> and \<open>tillerVersion\<close> otherwise; if it is another
  string, null or absent, the run is fatal (exit code 203, or a \<open>TypeError\<close> when the
  object that should hold the field is missing). An answer that is not a success ends
  the process with 710. A version field that is not a string is compared loosely
  (\<open>!=\<close>) and is not covered here.
\<close>

theorem publish_verification:
  assumes "length (argv w) = 3" and "stdin w = Some request"
    and "EvGet url hs \<in> set (fst (out w))"
  shows "\<exists>cf st so se line.
           snd (prePackaging w request) = Inr (cf, st)
           \<and> exec w (inspectCommand cf) = ExecOk so se
           \<and> find (prefix ''version:'') (splitLines so) = Some line
           \<and> url = chartInfoUrl request (parseVersionLine line)
           \<and> hs = createFetchHeaders w request
           \<and> (\<forall>status j. fetchGet w url hs = Response status (Some j)
                  \<and> 200 \<le> status \<and> status < 300 \<longrightarrow>
                (versionField request j = Some (JStr (parseVersionLine line)) \<longrightarrow>
                   (\<exists>resp. snd (out w) = Inr resp
                      \<and> resp_version resp = Some (JStr (parseVersionLine line))
                      \<and> (harbor_api (source request) = Some True \<longrightarrow>
                            resp = harborResponse (Some j) (propOf (Some j) ''metadata'')
                            \<and> map fst (resp_metadata resp)
                                = [''created'', ''description'', ''appVersion''])
                      \<and> (harbor_api (source request) \<noteq> Some True \<longrightarrow>
                            resp = plainResponse (Some j)
                            \<and> map fst (resp_metadata resp)
                                = [''created'', ''description'', ''appVersion'', ''home'',
                                   ''tillerVersion''])))
                \<and> (versionField request j = None \<or> versionField request j = Some JNull
                     \<or> (\<exists>s. versionField request j = Some (JStr s)
                             \<and> s \<noteq> parseVersionLine line) \<longrightarrow>
                   snd (out w) = Inl (Exit 203) \<or> snd (out w) = Inl (Throw TypeError)))
           \<and> (\<forall>status b. fetchGet w url hs = Response status b
                  \<and> \<not> (200 \<le> status \<and> status < 300) \<longrightarrow> snd (out w) = Inl (Exit 710))"
proof -
  obtain cf st ver where a: "snd (prePackaging w request) = Inr (cf, st)"
    and i: "snd (inspectChart w cf) = Inr ver"
    and u: "url = chartInfoUrl request ver" and h: "hs = createFetchHeaders w request"
    and o: "snd (out w) = checkChartResp w request ver (fetchGet w url hs)"
    using out_get [OF assms] by auto
  obtain so se line where x: "exec w (inspectCommand cf) = ExecOk so se"
    and f: "find (prefix ''version:'') (splitLines so) = Some line"
    and v: "ver = parseVersionLine line"
    using i by (auto simp: inspectChart_Inr)
  have ok: "versionField request j = Some (JStr ver) \<longrightarrow>
              (\<exists>resp. checkChartResp w request ver (Response status (Some j)) = Inr resp
                 \<and> resp_version resp = Some (JStr ver)
                 \<and> (harbor_api (source request) = Some True \<longrightarrow>
                       resp = harborResponse (Some j) (propOf (Some j) ''metadata'')
                       \<and> map fst (resp_metadata resp)
                           = [''created'', ''description'', ''appVersion''])
                 \<and> (harbor_api (source request) \<noteq> Some True \<longrightarrow>
                       resp = plainResponse (Some j)
                       \<and> map fst (resp_metadata resp)
                           = [''created'', ''description'', ''appVersion'', ''home'',
                              ''tillerVersion'']))"
    if "200 \<le> status" "status < 300" for status j
    using that
    by (cases "harbor_api (source request) = Some True")
       (auto simp: checkChartResp_def versionField_def getProp_def looseEq_def Let_def
          response_names plainResponse_def harborResponse_def)
  have bad: "versionField request j = None \<or> versionField request j = Some JNull
                \<or> (\<exists>s. versionField request j = Some (JStr s) \<and> s \<noteq> ver) \<longrightarrow>
              checkChartResp w request ver (Response status (Some j)) = Inl (Exit 203)
              \<or> checkChartResp w request ver (Response status (Some j)) = Inl (Throw TypeError)"
    if "200 \<le> status" "status < 300" for status j
    using that
    by (cases "harbor_api (source request) = Some True")
       (auto simp: checkChartResp_def versionField_def getProp_def looseEq_def Let_def)
  have no: "\<not> (200 \<le> status \<and> status < 300) \<longrightarrow>
              checkChartResp w request ver (Response status b) = Inl (Exit 710)" for status b
    by (simp add: checkChartResp_def)
  show ?thesis
    apply (rule exI [of _ cf], rule exI [of _ st], rule exI [of _ so], rule exI [of _ se],
        rule exI [of _ line])
    apply (intro conjI a x f h)
    subgoal using u v by simp
    subgoal using ok bad by (simp add: o v [symmetric])
    subgoal using no by (simp add: o)
    done
qed

theorem publish_verification_counterexample:
  "snd (inspectChart arrayVersionWorld ''/tmp/t/app-1.0.0.tgz'') = Inr ''1.0.0''
   \<and> fetchGet arrayVersionWorld ''http://cm/api/charts/app/1.0.0'' []
       = Response 200 (Some (JObj [(''version'', JArr [JStr ''1.0.0'']), (''digest'', JStr ''abc'')]))
   \<and> versionField exampleRequest
         (JObj [(''version'', JArr [JStr ''1.0.0'']), (''digest'', JStr ''abc'')])
       = Some (JArr [JStr ''1.0.0''])
   \<and> mainExit arrayVersionWorld
       = (0, Some \<lparr> resp_version = Some (JArr [JStr ''1.0.0'']),
                    resp_digest = Some (JStr ''abc''),
                    resp_metadata = [(''created'', None), (''description'', None),
                                     (''appVersion'', None), (''home'', None),
                                     (''tillerVersion'', None)] \<rparr>)"
  by code_simp

theorem publish_verification_witness:
  "EvGet ''http://cm/api/charts/app/1.0.0'' [] \<in> set (fst (out harborWorld))
   \<and> (\<exists>resp. snd (out harborWorld) = Inr resp
         \<and> resp_version resp = Some (JStr ''1.0.0'')
         \<and> map fst (resp_metadata resp) = [''created'', ''description'', ''appVersion''])"
proof -
  have h1: "length (argv harborWorld) = 3"
    by (simp add: harborWorld_def exampleWorld_def)
  have h2: "stdin harborWorld = Some harborRequest"
    by (simp add: harborWorld_def)
  have h3: "EvGet ''http://cm/api/charts/app/1.0.0'' [] \<in> set (fst (out harborWorld))"
    by code_simp
  have h4: "fetchGet harborWorld ''http://cm/api/charts/app/1.0.0'' []
              = Response 200 (Some harborChartJson)"
    by (simp add: harborWorld_def)
  have h5: "versionField harborRequest harborChartJson = Some (JStr ''1.0.0'')"
    by code_simp
  have h6: "harbor_api (source harborRequest) = Some True"
    by (simp add: harborRequest_def)
  from publish_verification [OF h1 h2 h3] obtain line where
    l: "''http://cm/api/charts/app/1.0.0'' = chartInfoUrl harborRequest (parseVersionLine line)"
    and r: "\<forall>status j. fetchGet harborWorld ''http://cm/api/charts/app/1.0.0'' []
                = Response status (Some j) \<and> 200 \<le> status \<and> status < 300 \<longrightarrow>
              (versionField harborRequest j = Some (JStr (parseVersionLine line)) \<longrightarrow>
                 (\<exists>resp. snd (out harborWorld) = Inr resp
                    \<and> resp_version resp = Some (JStr (parseVersionLine line))
                    \<and> (harbor_api (source harborRequest) = Some True \<longrightarrow>
                          resp = harborResponse (Some j) (propOf (Some j) ''metadata'')
                          \<and> map fst (resp_metadata resp)
                              = [''created'', ''description'', ''appVersion''])
                    \<and> (harbor_api (source harborRequest) \<noteq> Some True \<longrightarrow>
                          resp = plainResponse (Some j)
                          \<and> map fst (resp_metadata resp)
                              = [''created'', ''description'', ''appVersion'', ''home'',
                                 ''tillerVersion''])))
              \<and> (versionField harborRequest j = None \<or> versionField harborRequest j = Some JNull
                   \<or> (\<exists>s. versionField harborRequest j = Some (JStr s)
                           \<and> s \<noteq> parseVersionLine line) \<longrightarrow>
                 snd (out harborWorld) = Inl (Exit 203)
                 \<or> snd (out harborWorld) = Inl (Throw TypeError))"
    by (elim exE conjE)
  have v: "parseVersionLine line = ''1.0.0''"
    using l by (simp add: chartInfoUrl_def harborRequest_def exampleRequest_def)
  show ?thesis
    using r [rule_format, of 200 harborChartJson] h3 h4 h5 h6 v by auto
qed

subsection \<open>The inspected version\<close>

lemma checkChartResp_Inr:
  "checkChartResp w request ver r = Inr resp \<Longrightarrow> looseEq w ver (resp_version resp)"
  by (auto simp: checkChartResp_def Let_def harborResponse_def plainResponse_def getProp_def
        split: fetch_result.splits if_splits option.splits sum.splits)

text \<open>
  Claim C1 (as amended). Once an archive is produced or given, the version used by the
  rest of the pipeline is the one the inspection of that archive prints: an inspection
  that fails ends the process with 120, one without a version line with 121, and
  otherwise the upload and the verification run with the printed version, which is the
  version of the verification URL and the one the returned version is compared with. The
  version resolved before packaging plays no part: a difference between the two is not
  detected.
\<close>

theorem inspected_version_used:
  assumes "length (argv w) = 3" and "stdin w = Some request"
    and "snd (prePackaging w request) = Inr (cf, st)"
  shows "(exec w (inspectCommand cf) = ExecFailed err \<longrightarrow> snd (out w) = Inl (Exit 120))
       \<and> (exec w (inspectCommand cf) = ExecOk so se
            \<and> find (prefix ''version:'') (splitLines so) = None \<longrightarrow>
          snd (out w) = Inl (Exit 121))
       \<and> (exec w (inspectCommand cf) = ExecOk so se
            \<and> find (prefix ''version:'') (splitLines so) = Some line \<longrightarrow>
          out w = andThen (prePackaging w request) (\<lambda>_.
                  andThen (emit [EvExec (inspectCommand cf)]) (\<lambda>_.
                  andThen (uploadChart w request cf st) (\<lambda>_.
                    verifyUpload w request (parseVersionLine line))))
          \<and> (\<forall>url hs. EvGet url hs \<in> set (fst (out w)) \<longrightarrow>
                url = chartInfoUrl request (parseVersionLine line))
          \<and> (\<forall>resp. snd (out w) = Inr resp \<longrightarrow>
                looseEq w (parseVersionLine line) (resp_version resp)))"
proof -
  obtain t where t: "prePackaging w request = (t, Inr (cf, st))"
    using assms(3) by (cases "prePackaging w request") auto
  have o: "out w = andThen (t, Inr (cf, st)) (\<lambda>(cf, st). afterPackaging w request cf st)"
    using out_started [OF assms(1,2)] t by simp
  have 1: "exec w (inspectCommand cf) = ExecFailed err \<longrightarrow> snd (out w) = Inl (Exit 120)"
    by (simp add: o afterPackaging_def inspectChart_def)
  have 2: "exec w (inspectCommand cf) = ExecOk so se
            \<and> find (prefix ''version:'') (splitLines so) = None \<longrightarrow>
          snd (out w) = Inl (Exit 121)"
    by (simp add: o afterPackaging_def inspectChart_def)
  have 3: "out w = andThen (prePackaging w request) (\<lambda>_.
                  andThen (emit [EvExec (inspectCommand cf)]) (\<lambda>_.
                  andThen (uploadChart w request cf st) (\<lambda>_.
                    verifyUpload w request (parseVersionLine line))))"
    (is "out w = ?rhs")
    and 4: "\<forall>url hs. EvGet url hs \<in> set (fst (out w)) \<longrightarrow>
                url = chartInfoUrl request (parseVersionLine line)"
    and 5: "\<forall>resp. snd (out w) = Inr resp \<longrightarrow>
                looseEq w (parseVersionLine line) (resp_version resp)"
    if x: "exec w (inspectCommand cf) = ExecOk so se"
      and f: "find (prefix ''version:'') (splitLines so) = Some line"
  proof -
    have i: "snd (inspectChart w cf) = Inr (parseVersionLine line)"
      using x f by (auto simp: inspectChart_Inr)
    then have i': "inspectChart w cf = ([EvExec (inspectCommand cf)], Inr (parseVersionLine line))"
      using inspectChart_trace [of w cf] by (cases "inspectChart w cf") auto
    show "out w = ?rhs"
      by (simp add: o t afterPackaging_def i')
    show "\<forall>url hs. EvGet url hs \<in> set (fst (out w)) \<longrightarrow>
                url = chartInfoUrl request (parseVersionLine line)"
      using out_get [OF assms(1,2)] assms(3) i by fastforce
    show "\<forall>resp. snd (out w) = Inr resp \<longrightarrow>
                looseEq w (parseVersionLine line) (resp_version resp)"
    proof (intro allI impI)
      fix resp
      assume r: "snd (out w) = Inr resp"
      then have "snd (afterPackaging w request cf st) = Inr resp"
        by (simp add: o)
      then have "checkChartResp w request (parseVersionLine line)
                   (fetchGet w (chartInfoUrl request (parseVersionLine line))
                      (createFetchHeaders w request)) = Inr resp"
        using afterPackaging_cases [of w cf request st] i by auto
      then show "looseEq w (parseVersionLine line) (resp_version resp)"
        by (rule checkChartResp_Inr)
    qed
  qed
  show ?thesis
    using 1 2 3 4 5 by blast
qed

theorem inspected_version_used_counterexample:
  "snd (resolveVersion mismatchWorld mismatchRequest) = Inr (Some ''2.0.0'')
   \<and> snd (prePackaging mismatchWorld mismatchRequest)
       = Inr (''/build/app.tgz'', \<lparr> st_kind = RegularFile, st_size = 1234 \<rparr>)
   \<and> snd (inspectChart mismatchWorld ''/build/app.tgz'') = Inr ''1.0.0''
   \<and> mainExit mismatchWorld = (0, Some (plainResponse (Some exampleChartJson)))"
  by code_simp

theorem inspected_version_used_witness:
  "snd (prePackaging mismatchWorld mismatchRequest)
     = Inr (''/build/app.tgz'', \<lparr> st_kind = RegularFile, st_size = 1234 \<rparr>)
   \<and> out mismatchWorld
       = andThen (prePackaging mismatchWorld mismatchRequest) (\<lambda>_.
         andThen (emit [EvExec (inspectCommand ''/build/app.tgz'')]) (\<lambda>_.
         andThen (uploadChart mismatchWorld mismatchRequest ''/build/app.tgz''
                    \<lparr> st_kind = RegularFile, st_size = 1234 \<rparr>) (\<lambda>_.
           verifyUpload mismatchWorld mismatchRequest ''1.0.0'')))
   \<and> EvGet ''http://cm/api/charts/app/1.0.0'' [] \<in> set (fst (out mismatchWorld))"
proof -
  have h1: "length (argv mismatchWorld) = 3"
    by (simp add: mismatchWorld_def exampleWorld_def)
  have h2: "stdin mismatchWorld = Some mismatchRequest"
    by (simp add: mismatchWorld_def)
  have h3: "snd (prePackaging mismatchWorld mismatchRequest)
              = Inr (''/build/app.tgz'', \<lparr> st_kind = RegularFile, st_size = 1234 \<rparr>)"
    by code_simp
  have h4: "exec mismatchWorld (inspectCommand ''/build/app.tgz'')
              = ExecOk (''name: app'' @ [LF] @ ''version: 1.0.0'' @ [LF]) []"
    by code_simp
  have h5: "find (prefix ''version:'') (splitLines (''name: app'' @ [LF] @ ''version: 1.0.0'' @ [LF]))
              = Some ''version: 1.0.0''"
    by code_simp
  have h6: "parseVersionLine ''version: 1.0.0'' = ''1.0.0''"
    by code_simp
  have h7: "EvGet ''http://cm/api/charts/app/1.0.0'' [] \<in> set (fst (out mismatchWorld))"
    by code_simp
  show ?thesis
    using inspected_version_used [OF h1 h2 h3, of None
            "''name: app'' @ [LF] @ ''version: 1.0.0'' @ [LF]" "[]" "''version: 1.0.0''"]
          h3 h4 h5 h7
    by (simp add: h6)
qed

subsection \<open>Signer\<close>

lemma signChart_spawn_event:
  assumes "EvSpawnGpg args pass \<in> set (fst (signChart w p tmpDir))"
  shows "args = gpgImportArgs w (mkdtemp w) (signKeyFile p tmpDir)
         \<and> pass = key_passphrase p
         \<and> (key_data p \<noteq> None \<or> key_file p \<noteq> None)
         \<and> set (signStaged p tmpDir) \<subseteq> set (fst (signChart w p tmpDir))"
  using signChart_cases [where w = w and p = p and tmpDir = tmpDir] assms
    signStaged_events [of "EvSpawnGpg args pass" p tmpDir]
  by auto

lemma signChart_spawns:
  assumes "key_data p \<noteq> None \<or> key_file p \<noteq> None"
  shows "EvSpawnGpg (gpgImportArgs w (mkdtemp w) (signKeyFile p tmpDir)) (key_passphrase p)
           \<in> set (fst (signChart w p tmpDir))
         \<and> set (signStaged p tmpDir) \<subseteq> set (fst (signChart w p tmpDir))"
  using signChart_cases [where w = w and p = p and tmpDir = tmpDir] assms by auto

text \<open>A gpg spawn of a run lies in the trace of the signer, for a chart directory with
  \<open>sign\<close> set, and the whole trace of the signer is part of the run.\<close>

lemma out_gpg_spawn:
  assumes "length (argv w) = 3" and "stdin w = Some request"
    and "e \<in> set (fst (out w))" and "isGpgSpawn e"
  shows "\<exists>n. sign (params request) = Some True
           \<and> (\<exists>d. lstat w (pathResolve w (chart (params request))) = Some d
                   \<and> st_kind d = Directory)
           \<and> e \<in> set (fst (signChart w (params request) (tmpDirs w n)))
           \<and> set (fst (signChart w (params request) (tmpDirs w n))) \<subseteq> set (fst (out w))"
proof -
  have sub: "set (fst (prePackaging w request)) \<subseteq> set (fst (out w))"
    by (simp add: out_started [OF assms(1,2)] fst_andThen)
  have "e \<in> set (fst (prePackaging w request))"
  proof (cases "snd (prePackaging w request)")
    case (Inl h)
    then show ?thesis
      using assms(3) by (simp add: out_started [OF assms(1,2)] fst_andThen)
  next
    case (Inr a)
    obtain cf st where "a = (cf, st)" by (cases a)
    then have "fst (out w) = fst (prePackaging w request) @ fst (afterPackaging w request cf st)"
      using out_after_archive [OF assms(1,2)] Inr by simp
    then show ?thesis
      using assms(3,4) afterPackaging_quiet_keys [of e w request cf st] by auto
  qed
  moreover obtain q P where qp: "fst (prePackaging w request) = q @ P
     \<and> (\<forall>e \<in> set q. quietEvent e)
     \<and> (P = [] \<or> (\<exists>n ver. P = fst (packageChart w request n ver)))"
    using prePackaging_split [of w request] by (elim exE)
  ultimately obtain n ver where P: "P = fst (packageChart w request n ver)" and eP: "e \<in> set P"
    using assms(4) by (auto simp: quietEvent_def)
  obtain pre sg post where p:
    "fst (packageChart w request n ver) = pre @ sg @ post
     \<and> (\<forall>e \<in> set pre. quietEvent e \<and> \<not> isSubprocess e) \<and> (\<forall>e \<in> set post. quietEvent e)
     \<and> (sg = [] \<or> sign (params request) = Some True
                    \<and> sg = fst (signChart w (params request) (tmpDirs w n))
                    \<and> (\<exists>st. lstat w (pathResolve w (chart (params request))) = Some st
                             \<and> st_kind st = Directory))"
    using packageChart_trace [of w request n ver] by (elim exE)
  have esg: "e \<in> set sg"
    using eP P p assms(4) by (auto simp: quietEvent_def)
  have "set sg \<subseteq> set (fst (out w))"
    using sub qp P p by auto
  with esg p show ?thesis
    by (intro exI [of _ n]) auto
qed

text \<open>The run of a request that gets to the packager.\<close>

lemma out_at_packager:
  assumes "length (argv w) = 3" and "stdin w = Some request"
    and "snd (resolveVersion w request) = Inr ver"
    and "snd (checkVersionRange w request ver) = Inr ()"
    and "snd (registerRepos w request) = Inr n"
  shows "out w = andThen (fst (resolveVersion w request) @ fst (registerRepos w request),
                          Inr ())
                   (\<lambda>_. andThen (packageChart w request n ver)
                          (\<lambda>(cf, st). afterPackaging w request cf st))"
proof -
  obtain t1 where t1: "resolveVersion w request = (t1, Inr ver)"
    using assms(3) by (cases "resolveVersion w request") auto
  have c: "checkVersionRange w request ver = ([], Inr ())"
    using assms(4) checkVersionRange_trace [of w request ver]
    by (cases "checkVersionRange w request ver") auto
  obtain t2 where t2: "registerRepos w request = (t2, Inr n)"
    using assms(5) by (cases "registerRepos w request") auto
  show ?thesis
    using assms(1,2)
    by (simp add: out_def outRequest_def afterRangeCheck_def t1 c t2)
qed

lemma packageChart_signer:
  assumes "sign (params request) = Some True"
    and "lstat w (pathResolve w (chart (params request))) = Some d"
    and "st_kind d = Directory"
    and "yamlLoad w (joinPath (pathResolve w (chart (params request))) ''Chart.yaml'')
           \<noteq> YamlThrows"
  shows "set (fst (signChart w (params request) (tmpDirs w n)))
           \<subseteq> set (fst (packageChart w request n ver))"
    and "signChart w (params request) (tmpDirs w n) = (t, Inl h) \<Longrightarrow>
         packageChart w request n ver
           = ([EvLstat (pathResolve w (chart (params request))),
               EvYamlLoad (joinPath (pathResolve w (chart (params request))) ''Chart.yaml''),
               EvTmpDir (tmpDirs w n)] @ t, Inl h)"
proof -
  obtain ci where y:
    "yamlLoad w (joinPath (pathResolve w (chart (params request))) ''Chart.yaml'')
       = YamlLoaded ci"
    using assms(4)
    by (cases "yamlLoad w (joinPath (pathResolve w (chart (params request))) ''Chart.yaml'')")
       auto
  show "set (fst (signChart w (params request) (tmpDirs w n)))
           \<subseteq> set (fst (packageChart w request n ver))"
    using assms(1,2,3) y
    by (auto simp: packageChart_def packageDirectory_def Let_def fst_andThen)
  show "signChart w (params request) (tmpDirs w n) = (t, Inl h) \<Longrightarrow>
         packageChart w request n ver
           = ([EvLstat (pathResolve w (chart (params request))),
               EvYamlLoad (joinPath (pathResolve w (chart (params request))) ''Chart.yaml''),
               EvTmpDir (tmpDirs w n)] @ t, Inl h)"
    using assms(1,2,3) y
    by (simp add: packageChart_def packageDirectory_def Let_def)
qed

text \<open>
  Claim C4 (as amended). The key import (the gpg child process) is started only if
  \<open>sign\<close> is true and the chart is a directory, and then on one key only: the file
  \<open>gpg-key.asc\<close> of the temporary directory, into which \<open>key_data\<close> has been written,
  when \<open>key_data\<close> is set (also when \<open>key_file\<close> is set as well), and the file
  \<open>key_file\<close> when only \<open>key_file\<close> is set. For a run with \<open>sign\<close> true whose version
  is resolved and in range, whose dependency repositories are registered, and whose chart
  is a directory with a \<open>Chart.yaml\<close> that loads: with neither key set the run ends in
  \<open>process.exit(332)\<close>, so the process exits with status 76, and the only subprocesses
  started are those that register the dependency repositories (no key import, no
  packaging); with \<open>key_data\<close> set the key data is written and the import is started on
  the written file; with only \<open>key_file\<close> set the import is started on that file.
\<close>

theorem signing_condition:
  assumes "length (argv w) = 3" and "stdin w = Some request"
  shows "(EvSpawnGpg args pass \<in> set (fst (out w)) \<longrightarrow>
            sign (params request) = Some True
            \<and> (\<exists>st. lstat w (pathResolve w (chart (params request))) = Some st
                    \<and> st_kind st = Directory)
            \<and> pass = key_passphrase (params request)
            \<and> (\<exists>m. (\<exists>keyData. key_data (params request) = Some keyData
                       \<and> args = gpgImportArgs w (mkdtemp w)
                                  (joinPath (tmpDirs w m) ''gpg-key.asc'')
                       \<and> EvWriteFile (joinPath (tmpDirs w m) ''gpg-key.asc'') keyData
                            \<in> set (fst (out w)))
                  \<or> (\<exists>keyFile. key_data (params request) = None
                       \<and> key_file (params request) = Some keyFile
                       \<and> args = gpgImportArgs w (mkdtemp w) keyFile)))
       \<and> (sign (params request) = Some True
            \<and> snd (resolveVersion w request) = Inr ver
            \<and> snd (checkVersionRange w request ver) = Inr ()
            \<and> snd (registerRepos w request) = Inr n
            \<and> lstat w (pathResolve w (chart (params request))) = Some d
            \<and> st_kind d = Directory
            \<and> yamlLoad w (joinPath (pathResolve w (chart (params request))) ''Chart.yaml'')
                 \<noteq> YamlThrows \<longrightarrow>
            (key_data (params request) = None \<and> key_file (params request) = None \<longrightarrow>
               out w = (fst (resolveVersion w request) @ fst (registerRepos w request)
                        @ [EvLstat (pathResolve w (chart (params request))),
                           EvYamlLoad (joinPath (pathResolve w (chart (params request)))
                                         ''Chart.yaml''),
                           EvTmpDir (tmpDirs w n)],
                        Inl (Exit 332))
               \<and> mainExit w = (76, None)
               \<and> (\<forall>e \<in> set (fst (out w)).
                     isSubprocess e \<longrightarrow> e \<in> set (fst (registerRepos w request))))
            \<and> (key_data (params request) = Some kd \<longrightarrow>
                 EvWriteFile (joinPath (tmpDirs w n) ''gpg-key.asc'') kd \<in> set (fst (out w))
                 \<and> EvSpawnGpg (gpgImportArgs w (mkdtemp w)
                                 (joinPath (tmpDirs w n) ''gpg-key.asc''))
                      (key_passphrase (params request)) \<in> set (fst (out w)))
            \<and> (key_data (params request) = None \<and> key_file (params request) = Some kf \<longrightarrow>
                 EvSpawnGpg (gpgImportArgs w (mkdtemp w) kf)
                   (key_passphrase (params request)) \<in> set (fst (out w))))"
proof -
  let ?p = "params request"
  let ?loc = "pathResolve w (chart ?p)"
  have 1: "sign ?p = Some True
            \<and> (\<exists>st. lstat w ?loc = Some st \<and> st_kind st = Directory)
            \<and> pass = key_passphrase ?p
            \<and> (\<exists>m. (\<exists>keyData. key_data ?p = Some keyData
                       \<and> args = gpgImportArgs w (mkdtemp w)
                                  (joinPath (tmpDirs w m) ''gpg-key.asc'')
                       \<and> EvWriteFile (joinPath (tmpDirs w m) ''gpg-key.asc'') keyData
                            \<in> set (fst (out w)))
                  \<or> (\<exists>keyFile. key_data ?p = None \<and> key_file ?p = Some keyFile
                       \<and> args = gpgImportArgs w (mkdtemp w) keyFile))"
    if e: "EvSpawnGpg args pass \<in> set (fst (out w))"
  proof -
    obtain m where m: "sign ?p = Some True"
        "\<exists>st. lstat w ?loc = Some st \<and> st_kind st = Directory"
        "EvSpawnGpg args pass \<in> set (fst (signChart w ?p (tmpDirs w m)))"
        "set (fst (signChart w ?p (tmpDirs w m))) \<subseteq> set (fst (out w))"
      using out_gpg_spawn [OF assms e] by auto
    have s: "args = gpgImportArgs w (mkdtemp w) (signKeyFile ?p (tmpDirs w m))"
        "pass = key_passphrase ?p"
        "key_data ?p \<noteq> None \<or> key_file ?p \<noteq> None"
        "set (signStaged ?p (tmpDirs w m)) \<subseteq> set (fst (out w))"
      using signChart_spawn_event [OF m(3)] m(4) by auto
    have "(\<exists>keyData. key_data ?p = Some keyData
              \<and> args = gpgImportArgs w (mkdtemp w) (joinPath (tmpDirs w m) ''gpg-key.asc'')
              \<and> EvWriteFile (joinPath (tmpDirs w m) ''gpg-key.asc'') keyData
                   \<in> set (fst (out w)))
          \<or> (\<exists>keyFile. key_data ?p = None \<and> key_file ?p = Some keyFile
              \<and> args = gpgImportArgs w (mkdtemp w) keyFile)"
    proof (cases "key_data ?p")
      case None
      then show ?thesis using s(1,3) by (auto simp: signKeyFile_def)
    next
      case (Some keyData)
      then show ?thesis using s(1,4) by (auto simp: signKeyFile_def signStaged_def)
    qed
    then show ?thesis using m(1,2) s(2) by blast
  qed
  have 2: "(key_data ?p = None \<and> key_file ?p = None \<longrightarrow>
               out w = (fst (resolveVersion w request) @ fst (registerRepos w request)
                        @ [EvLstat ?loc, EvYamlLoad (joinPath ?loc ''Chart.yaml''),
                           EvTmpDir (tmpDirs w n)],
                        Inl (Exit 332))
               \<and> mainExit w = (76, None)
               \<and> (\<forall>e \<in> set (fst (out w)).
                     isSubprocess e \<longrightarrow> e \<in> set (fst (registerRepos w request))))
            \<and> (key_data ?p = Some kd \<longrightarrow>
                 EvWriteFile (joinPath (tmpDirs w n) ''gpg-key.asc'') kd \<in> set (fst (out w))
                 \<and> EvSpawnGpg (gpgImportArgs w (mkdtemp w)
                                 (joinPath (tmpDirs w n) ''gpg-key.asc''))
                      (key_passphrase ?p) \<in> set (fst (out w)))
            \<and> (key_data ?p = None \<and> key_file ?p = Some kf \<longrightarrow>
                 EvSpawnGpg (gpgImportArgs w (mkdtemp w) kf) (key_passphrase ?p)
                   \<in> set (fst (out w)))"
    if h: "sign ?p = Some True" "snd (resolveVersion w request) = Inr ver"
      "snd (checkVersionRange w request ver) = Inr ()"
      "snd (registerRepos w request) = Inr n"
      "lstat w ?loc = Some d" "st_kind d = Directory"
      "yamlLoad w (joinPath ?loc ''Chart.yaml'') \<noteq> YamlThrows"
  proof -
    note o = out_at_packager [OF assms h(2,3,4)]
    note pk = packageChart_signer [OF h(1,5,6,7), where n = n and ver = ver]
    have sub: "set (fst (signChart w ?p (tmpDirs w n))) \<subseteq> set (fst (out w))"
      using pk(1) by (auto simp: o fst_andThen)
    have a: "out w = (fst (resolveVersion w request) @ fst (registerRepos w request)
                        @ [EvLstat ?loc, EvYamlLoad (joinPath ?loc ''Chart.yaml''),
                           EvTmpDir (tmpDirs w n)],
                        Inl (Exit 332))
             \<and> mainExit w = (76, None)
             \<and> (\<forall>e \<in> set (fst (out w)).
                   isSubprocess e \<longrightarrow> e \<in> set (fst (registerRepos w request)))"
      if k: "key_data ?p = None" "key_file ?p = None"
    proof -
      have "signChart w ?p (tmpDirs w n) = ([], Inl (Exit 332))"
        using k by (simp add: signChart_def exitWith_def)
      from pk(2) [OF this]
      have ow: "out w = (fst (resolveVersion w request) @ fst (registerRepos w request)
                        @ [EvLstat ?loc, EvYamlLoad (joinPath ?loc ''Chart.yaml''),
                           EvTmpDir (tmpDirs w n)],
                        Inl (Exit 332))"
        by (simp add: o andThen_def)
      have "mainExit w = (76, None)"
        by (simp add: mainExit_def ow exitStatus_def)
      moreover have "\<forall>e \<in> set (fst (out w)).
                   isSubprocess e \<longrightarrow> e \<in> set (fst (registerRepos w request))"
        using resolveVersion_quiet [of _ w request]
        by (auto simp: ow)
      ultimately show ?thesis using ow by blast
    qed
    have b: "EvWriteFile (joinPath (tmpDirs w n) ''gpg-key.asc'') kd \<in> set (fst (out w))
             \<and> EvSpawnGpg (gpgImportArgs w (mkdtemp w)
                             (joinPath (tmpDirs w n) ''gpg-key.asc''))
                  (key_passphrase ?p) \<in> set (fst (out w))"
      if k: "key_data ?p = Some kd"
      using signChart_spawns [of ?p w "tmpDirs w n"] sub k
      by (auto simp: signKeyFile_def signStaged_def)
    have c: "EvSpawnGpg (gpgImportArgs w (mkdtemp w) kf) (key_passphrase ?p)
               \<in> set (fst (out w))"
      if k: "key_data ?p = None" "key_file ?p = Some kf"
      using signChart_spawns [of ?p w "tmpDirs w n"] sub k
      by (auto simp: signKeyFile_def)
    show ?thesis using a b c by blast
  qed
  show ?thesis using 1 2 by blast
qed

text \<open>With both keys set the run is not refused: the key data is written, the import runs
  on the written file and not on \<open>key_file\<close>, and the chart is published. With no key set,
  an archive given as the chart is published without any key being asked for, and a chart
  directory whose \<open>Chart.yaml\<close> cannot be loaded ends the run with status 1, as a
  version out of range ends it with status 104.\<close>

theorem signing_condition_counterexample:
  "sign (params signRequest) = Some True
   \<and> key_data (params signRequest) = Some ''KEY''
   \<and> key_file (params signRequest) = Some ''k.asc''
   \<and> fst (out signWorld)
       = [EvLstat ''/build/chart'', EvYamlLoad ''/build/chart/Chart.yaml'',
          EvTmpDir ''/tmp/t'', EvWriteFile ''/tmp/t/gpg-key.asc'' ''KEY'',
          EvMkdtemp ''/tmp/kr'',
          EvSpawnGpg [''--batch'', ''--homedir'', quoted ''/tmp/kr'', ''--import'',
                      quoted ''/tmp/t/gpg-key.asc''] None,
          EvDeltree ''/tmp/kr'']
         @ drop 7 (fst (out signWorld))
   \<and> mainExit signWorld = (0, Some (plainResponse (Some exampleChartJson)))
   \<and> sign (params signArchiveRequest) = Some True
   \<and> key_data (params signArchiveRequest) = None
   \<and> key_file (params signArchiveRequest) = None
   \<and> mainExit signArchiveWorld = (0, Some (plainResponse (Some exampleChartJson)))
   \<and> out noChartYamlWorld
       = ([EvLstat ''/build/chart'', EvYamlLoad ''/build/chart/Chart.yaml''],
          Inl (Throw YamlError))
   \<and> mainExit noChartYamlWorld = (1, None)
   \<and> sign (params noKeyRangeRequest) = Some True
   \<and> out noKeyRangeWorld = ([], Inl (Exit 104))
   \<and> mainExit noKeyRangeWorld = (104, None)"
  by code_simp

theorem signing_condition_witness:
  "out noKeyWorld
     = ([EvLstat ''/build/chart'', EvYamlLoad ''/build/chart/Chart.yaml'',
         EvTmpDir ''/tmp/t''], Inl (Exit 332))
   \<and> mainExit noKeyWorld = (76, None)
   \<and> EvSpawnGpg [''--batch'', ''--homedir'', quoted ''/tmp/kr'', ''--import'',
                  quoted ''/build/k.asc''] None \<in> set (fst (out keyFileWorld))
   \<and> EvWriteFile ''/tmp/t/gpg-key.asc'' ''KEY'' \<in> set (fst (out signWorld))"
proof -
  have a1: "length (argv noKeyWorld) = 3" by code_simp
  have a2: "stdin noKeyWorld = Some noKeyRequest" by code_simp
  have a3: "sign (params noKeyRequest) = Some True" by code_simp
  have a4: "snd (resolveVersion noKeyWorld noKeyRequest) = Inr None" by code_simp
  have a5: "snd (checkVersionRange noKeyWorld noKeyRequest None) = Inr ()" by code_simp
  have a6: "snd (registerRepos noKeyWorld noKeyRequest) = Inr 0" by code_simp
  have a7: "lstat noKeyWorld (pathResolve noKeyWorld (chart (params noKeyRequest)))
              = Some \<lparr> st_kind = Directory, st_size = 0 \<rparr>" by code_simp
  have a8: "yamlLoad noKeyWorld
              (joinPath (pathResolve noKeyWorld (chart (params noKeyRequest))) ''Chart.yaml'')
              \<noteq> YamlThrows" by code_simp
  have a9: "key_data (params noKeyRequest) = None" by code_simp
  have a10: "key_file (params noKeyRequest) = None" by code_simp
  have a11: "fst (resolveVersion noKeyWorld noKeyRequest)
               @ fst (registerRepos noKeyWorld noKeyRequest)
               @ [EvLstat (pathResolve noKeyWorld (chart (params noKeyRequest))),
                  EvYamlLoad (joinPath (pathResolve noKeyWorld (chart (params noKeyRequest)))
                                ''Chart.yaml''),
                  EvTmpDir (tmpDirs noKeyWorld 0)]
             = [EvLstat ''/build/chart'', EvYamlLoad ''/build/chart/Chart.yaml'',
                EvTmpDir ''/tmp/t'']" by code_simp
  have b1: "length (argv keyFileWorld) = 3" by code_simp
  have b2: "stdin keyFileWorld = Some keyFileRequest" by code_simp
  have b3: "sign (params keyFileRequest) = Some True" by code_simp
  have b4: "snd (resolveVersion keyFileWorld keyFileRequest) = Inr None" by code_simp
  have b5: "snd (checkVersionRange keyFileWorld keyFileRequest None) = Inr ()" by code_simp
  have b6: "snd (registerRepos keyFileWorld keyFileRequest) = Inr 0" by code_simp
  have b7: "lstat keyFileWorld (pathResolve keyFileWorld (chart (params keyFileRequest)))
              = Some \<lparr> st_kind = Directory, st_size = 0 \<rparr>" by code_simp
  have b8: "yamlLoad keyFileWorld
              (joinPath (pathResolve keyFileWorld (chart (params keyFileRequest)))
                 ''Chart.yaml'') \<noteq> YamlThrows" by code_simp
  have b9: "key_data (params keyFileRequest) = None" by code_simp
  have b10: "key_file (params keyFileRequest) = Some ''k.asc''" by code_simp
  have b11: "gpgImportArgs keyFileWorld (mkdtemp keyFileWorld) ''k.asc''
               = [''--batch'', ''--homedir'', quoted ''/tmp/kr'', ''--import'',
                  quoted ''/build/k.asc'']" by code_simp
  have b12: "key_passphrase (params keyFileRequest) = None" by code_simp
  have c1: "length (argv signWorld) = 3" by code_simp
  have c2: "stdin signWorld = Some signRequest" by code_simp
  have c3: "sign (params signRequest) = Some True" by code_simp
  have c4: "snd (resolveVersion signWorld signRequest) = Inr None" by code_simp
  have c5: "snd (checkVersionRange signWorld signRequest None) = Inr ()" by code_simp
  have c6: "snd (registerRepos signWorld signRequest) = Inr 0" by code_simp
  have c7: "lstat signWorld (pathResolve signWorld (chart (params signRequest)))
              = Some \<lparr> st_kind = Directory, st_size = 0 \<rparr>" by code_simp
  have c8: "yamlLoad signWorld
              (joinPath (pathResolve signWorld (chart (params signRequest))) ''Chart.yaml'')
              \<noteq> YamlThrows" by code_simp
  have c9: "key_data (params signRequest) = Some ''KEY''" by code_simp
  have c10: "joinPath (tmpDirs signWorld 0) ''gpg-key.asc'' = ''/tmp/t/gpg-key.asc''"
    by code_simp
  have n0: "out noKeyWorld
      = (fst (resolveVersion noKeyWorld noKeyRequest)
         @ fst (registerRepos noKeyWorld noKeyRequest)
         @ [EvLstat (pathResolve noKeyWorld (chart (params noKeyRequest))),
            EvYamlLoad (joinPath (pathResolve noKeyWorld (chart (params noKeyRequest)))
                          ''Chart.yaml''),
            EvTmpDir (tmpDirs noKeyWorld 0)], Inl (Exit 332))
     \<and> mainExit noKeyWorld = (76, None)"
    using signing_condition [OF a1 a2, where ver = None and n = 0
        and d = "\<lparr> st_kind = Directory, st_size = 0 \<rparr>" and args = "[]" and pass = None
        and kd = "[]" and kf = "[]", THEN conjunct2] a3 a4 a5 a6 a7 a8 a9 a10
    by simp
  have n: "out noKeyWorld
     = ([EvLstat ''/build/chart'', EvYamlLoad ''/build/chart/Chart.yaml'',
         EvTmpDir ''/tmp/t''], Inl (Exit 332))
     \<and> mainExit noKeyWorld = (76, None)"
    using n0 by (simp add: a11)
  have k0: "EvSpawnGpg (gpgImportArgs keyFileWorld (mkdtemp keyFileWorld) ''k.asc'')
              (key_passphrase (params keyFileRequest)) \<in> set (fst (out keyFileWorld))"
    using signing_condition [OF b1 b2, where ver = None and n = 0
        and d = "\<lparr> st_kind = Directory, st_size = 0 \<rparr>" and args = "[]" and pass = None
        and kd = "[]" and kf = "''k.asc''", THEN conjunct2] b3 b4 b5 b6 b7 b8 b9 b10
    by simp
  have k: "EvSpawnGpg [''--batch'', ''--homedir'', quoted ''/tmp/kr'', ''--import'',
                  quoted ''/build/k.asc''] None \<in> set (fst (out keyFileWorld))"
    using k0 by (simp add: b11 b12)
  have s0: "EvWriteFile (joinPath (tmpDirs signWorld 0) ''gpg-key.asc'') ''KEY''
              \<in> set (fst (out signWorld))"
    using signing_condition [OF c1 c2, where ver = None and n = 0
        and d = "\<lparr> st_kind = Directory, st_size = 0 \<rparr>" and args = "[]" and pass = None
        and kd = "''KEY''" and kf = "[]", THEN conjunct2] c3 c4 c5 c6 c7 c8 c9
    by simp
  have s: "EvWriteFile ''/tmp/t/gpg-key.asc'' ''KEY'' \<in> set (fst (out signWorld))"
    using s0 by (simp add: c10)
  show ?thesis using n k s by (intro conjI) simp_all
qed

end
